theory Spec2Isabelle
  imports Complex_Main "HOL-Library.Word" "HOL-Library.Monad_Syntax"
begin

unbundle bit_operations_syntax

section \<open>Machine types\<close>

type_synonym u8 = "8 word"
type_synonym u16 = "16 word"
type_synonym u32 = "32 word"

text \<open>
  Pointers are 32-bit byte addresses (the target is a 32-bit microcontroller); the null
  pointer is address 0. Memory is word-granular: cell \<open>a\<close> holds the 32-bit word stored at
  byte address \<open>a\<close>. Every address the allocator computes is a multiple of 4 away from
  \<open>pool_start\<close>, so the four header fields of a block are four cells.
\<close>

type_synonym addr = "32 word"
type_synonym memory = "addr \<Rightarrow> u32"

section \<open>Pool allocator (src/ai/ai_memory.c)\<close>

definition MEMORY_MAGIC :: u32 where
  "MEMORY_MAGIC = 0xABCDEF01"

definition MEMORY_ALIGN :: u32 where
  "MEMORY_ALIGN = 8"

definition NPU_MAX_MEMORY_BYTES :: u32 where
  "NPU_MAX_MEMORY_BYTES = 2621440"

definition AI_MEMORY_POOL_SIZE :: u32 where
  "AI_MEMORY_POOL_SIZE = NPU_MAX_MEMORY_BYTES"

text \<open>
  \<open>sizeof(memory_block_t)\<close>: magic, size, timestamp and next are four 4-byte fields; the
  flexible array member \<open>data[]\<close> adds nothing. The payload starts right after them.
\<close>

definition HEADER_SIZE :: u32 where
  "HEADER_SIZE = 16"

text \<open>The fields of the \<open>memory_block_t\<close> header at address \<open>b\<close>.\<close>

definition magic_at :: "addr \<Rightarrow> addr" where
  "magic_at b = b"

definition size_at :: "addr \<Rightarrow> addr" where
  "size_at b = b + 4"

definition timestamp_at :: "addr \<Rightarrow> addr" where
  "timestamp_at b = b + 8"

definition next_at :: "addr \<Rightarrow> addr" where
  "next_at b = b + 12"

text \<open>\<open>block->data\<close>, the payload pointer handed to the caller.\<close>

definition data_of :: "addr \<Rightarrow> addr" where
  "data_of b = b + HEADER_SIZE"

text \<open>
  The allocator's globals: the fields of \<open>ai_pool\<close>, the list head \<open>allocated_blocks\<close>
  and the memory that holds the block headers. The spin flag \<open>memory_mutex\<close> is 0
  before and after every call of a sequential run and is left out. \<open>mem\<close> changes only
  through the header writes of the allocator; what a client stores in a payload is not
  tracked.
\<close>

record ai_memory =
  pool_start :: addr
  pool_end :: addr
  pool_size :: u32
  allocated_size :: u32
  peak_usage :: u32
  allocation_count :: u32
  free_count :: u32
  leak_count :: u32
  allocated_blocks :: addr
  mem :: memory

text \<open>
  \<open>ai_memory_init\<close>; \<open>buf\<close> is the address of the static \<open>ai_memory_pool_buffer\<close> and
  \<open>m\<close> the memory contents at that moment (the buffer is not cleared).
\<close>

definition ai_memory_init :: "addr \<Rightarrow> memory \<Rightarrow> ai_memory" where
  "ai_memory_init buf m =
     \<lparr> pool_start = buf,
       pool_end = buf + AI_MEMORY_POOL_SIZE,
       pool_size = AI_MEMORY_POOL_SIZE,
       allocated_size = 0,
       peak_usage = 0,
       allocation_count = 0,
       free_count = 0,
       leak_count = 0,
       allocated_blocks = 0,
       mem = m \<rparr>"

text \<open>
  \<open>ai_memory_alloc(size)\<close>; \<open>tick\<close> is the value \<open>hal_get_tick()\<close> returns. The result is
  the returned pointer (0 for NULL) and the new globals. All arithmetic is \<open>uint32_t\<close>
  arithmetic and wraps.
\<close>

definition ai_memory_alloc :: "u32 \<Rightarrow> u32 \<Rightarrow> ai_memory \<Rightarrow> addr \<times> ai_memory" where
  "ai_memory_alloc size0 tick s =
     (if size0 = 0 then (0, s)
      else
        let size1 = (size0 + MEMORY_ALIGN - 1) AND NOT (MEMORY_ALIGN - 1);
            total_size = HEADER_SIZE + size1
        in if allocated_size s + total_size > pool_size s then (0, s)
           else
             let block = pool_start s + allocated_size s;
                 m1 = (mem s)(magic_at block := MEMORY_MAGIC);
                 m2 = m1(size_at block := size1);
                 m3 = m2(timestamp_at block := tick);
                 m4 = m3(next_at block := allocated_blocks s);
                 used = allocated_size s + total_size
             in (data_of block,
                 s\<lparr> mem := m4,
                    allocated_blocks := block,
                    allocated_size := used,
                    allocation_count := allocation_count s + 1,
                    peak_usage := (if used > peak_usage s then used else peak_usage s) \<rparr>))"

text \<open>
  The search loop of \<open>ai_memory_free\<close>:
  \<^verbatim>\<open>while (current && current->next != block) current = current->next;\<close>
  It need not terminate (the list can be cyclic), so it is a partial function and
  \<open>None\<close> means that the loop runs forever.
\<close>

partial_function (option) free_walk :: "memory \<Rightarrow> addr \<Rightarrow> addr \<Rightarrow> addr option" where
  "free_walk m block current =
     (if current \<noteq> 0 \<and> m (next_at current) \<noteq> block
      then free_walk m block (m (next_at current))
      else Some current)"

text \<open>
  The four ways \<open>ai_memory_free\<close> ends: the silent return on a null pointer, the two
  error messages it prints, and the message of a completed free.
\<close>

datatype free_outcome = Free_Null | Free_Invalid_Magic | Free_Not_Found | Freed

text \<open>The tail of \<open>ai_memory_free\<close> after the block is unlinked: statistics, then the tag.\<close>

definition free_finish :: "addr \<Rightarrow> ai_memory \<Rightarrow> ai_memory" where
  "free_finish block s =
     (let total_size = HEADER_SIZE + mem s (size_at block)
      in s\<lparr> allocated_size := allocated_size s - total_size,
            free_count := free_count s + 1,
            mem := (mem s)(magic_at block := 0) \<rparr>)"

definition ai_memory_free :: "addr \<Rightarrow> ai_memory \<Rightarrow> (free_outcome \<times> ai_memory) option" where
  "ai_memory_free ptr s =
     (if ptr = 0 then Some (Free_Null, s)
      else
        let block = ptr - HEADER_SIZE
        in if mem s (magic_at block) \<noteq> MEMORY_MAGIC
           then Some (Free_Invalid_Magic, s\<lparr> leak_count := leak_count s + 1 \<rparr>)
           else if allocated_blocks s = block
           then Some (Freed,
                  free_finish block (s\<lparr> allocated_blocks := mem s (next_at block) \<rparr>))
           else
             (case free_walk (mem s) block (allocated_blocks s) of
                None \<Rightarrow> None
              | Some current \<Rightarrow>
                  if current \<noteq> 0
                  then Some (Freed,
                         free_finish block
                           (s\<lparr> mem := (mem s)(next_at current := mem s (next_at block)) \<rparr>))
                  else Some (Free_Not_Found, s\<lparr> leak_count := leak_count s + 1 \<rparr>)))"

text \<open>\<open>ai_memory_get_stats\<close>: used, free and peak bytes.\<close>

definition ai_memory_get_stats :: "ai_memory \<Rightarrow> u32 \<times> u32 \<times> u32" where
  "ai_memory_get_stats s = (allocated_size s, pool_size s - allocated_size s, peak_usage s)"

text \<open>
  The loop of \<open>ai_memory_check_leaks\<close>, with the local counter as accumulator. The age
  \<open>current_time - current->timestamp\<close> is a \<open>uint32_t\<close> difference.
\<close>

partial_function (option) leak_walk :: "memory \<Rightarrow> u32 \<Rightarrow> addr \<Rightarrow> u32 \<Rightarrow> u32 option" where
  "leak_walk m current_time current n =
     (if current \<noteq> 0
      then leak_walk m current_time (m (next_at current))
             (if current_time - m (timestamp_at current) > 30000 then n + 1 else n)
      else Some n)"

definition ai_memory_check_leaks :: "u32 \<Rightarrow> ai_memory \<Rightarrow> (u32 \<times> ai_memory) option" where
  "ai_memory_check_leaks current_time s =
     (case leak_walk (mem s) current_time (allocated_blocks s) 0 of
        None \<Rightarrow> None
      | Some n \<Rightarrow> Some (n, s\<lparr> leak_count := leak_count s + n \<rparr>))"

text \<open>
  The allocated-block list as a HOL list: \<open>block_list m p bs\<close> holds when following the
  \<open>next\<close> fields from \<open>p\<close> visits exactly the block addresses \<open>bs\<close> and then reaches NULL.
\<close>

fun block_list :: "memory \<Rightarrow> addr \<Rightarrow> addr list \<Rightarrow> bool" where
  "block_list m p [] = (p = 0)"
| "block_list m p (b # bs) = (p = b \<and> p \<noteq> 0 \<and> block_list m (m (next_at p)) bs)"


text \<open>The staleness test of \<open>ai_memory_check_leaks\<close> for the block at \<open>b\<close>.\<close>

definition stale :: "memory \<Rightarrow> u32 \<Rightarrow> addr \<Rightarrow> bool" where
  "stale m current_time b = (current_time - m (timestamp_at b) > 30000)"

subsection \<open>Call sequences\<close>

text \<open>
  A client of the allocator is a sequence of calls. \<open>Alloc size tick\<close> calls
  \<open>ai_memory_alloc(size)\<close> while the clock reads \<open>tick\<close>; \<open>Free k\<close> calls
  \<open>ai_memory_free\<close> on the pointer that the \<open>k\<close>-th allocate call of the run returned
  (counting from 0), so every freed pointer comes from the allocator. \<open>run_calls\<close> returns
  the pointers handed out so far, in call order, and the allocator's globals; it is
  \<open>None\<close> when a free never returns or \<open>k\<close> names no earlier call.
\<close>

datatype pool_call = Alloc u32 u32 | Free nat

fun run_calls :: "pool_call list \<Rightarrow> addr list \<times> ai_memory \<Rightarrow> (addr list \<times> ai_memory) option" where
  "run_calls [] st = Some st"
| "run_calls (Alloc sz tick # cs) (ps, s) =
     (case ai_memory_alloc sz tick s of (p, s') \<Rightarrow> run_calls cs (ps @ [p], s'))"
| "run_calls (Free k # cs) (ps, s) =
     (if k < length ps
      then (case ai_memory_free (ps ! k) s of
              None \<Rightarrow> None
            | Some (r, s') \<Rightarrow> run_calls cs (ps, s'))
      else None)"

text \<open>A memory whose cells are all zero, for concrete runs.\<close>

definition zero_memory :: memory where
  "zero_memory = (\<lambda>_. 0)"

section \<open>Inference task (src/tasks/ai_task.c, src/tasks/ai_task.h)\<close>

subsection \<open>Constants and data\<close>

definition CAMERA_WIDTH :: nat where
  "CAMERA_WIDTH = 640"

definition CAMERA_HEIGHT :: nat where
  "CAMERA_HEIGHT = 480"

definition OCR_INPUT_WIDTH :: nat where
  "OCR_INPUT_WIDTH = 320"

definition OCR_INPUT_HEIGHT :: nat where
  "OCR_INPUT_HEIGHT = 240"

definition OCR_MAX_TEXT_LENGTH :: nat where
  "OCR_MAX_TEXT_LENGTH = 256"

definition AI_MODEL_COUNT :: nat where
  "AI_MODEL_COUNT = 3"

definition AI_MODEL_TEXT_DETECTION :: nat where
  "AI_MODEL_TEXT_DETECTION = 0"

definition AI_MODEL_TEXT_RECOGNITION :: nat where
  "AI_MODEL_TEXT_RECOGNITION = 1"

definition TASK_ID_AI_TASK :: u8 where
  "TASK_ID_AI_TASK = 2"

definition AI_ERROR_NONE :: int where
  "AI_ERROR_NONE = 0"

definition AI_ERROR_INIT_FAILED :: int where
  "AI_ERROR_INIT_FAILED = - 1"

definition AI_ERROR_MODEL_LOAD_FAILED :: int where
  "AI_ERROR_MODEL_LOAD_FAILED = - 2"

definition AI_ERROR_INFERENCE_TIMEOUT :: int where
  "AI_ERROR_INFERENCE_TIMEOUT = - 3"

definition AI_ERROR_MEMORY_ALLOC_FAILED :: int where
  "AI_ERROR_MEMORY_ALLOC_FAILED = - 4"

definition AI_ERROR_INPUT_INVALID :: int where
  "AI_ERROR_INPUT_INVALID = - 5"

definition AI_ERROR_NPU_ERROR :: int where
  "AI_ERROR_NPU_ERROR = - 6"

definition AI_ERROR_CONFIDENCE_TOO_LOW :: int where
  "AI_ERROR_CONFIDENCE_TOO_LOW = - 7"

definition AI_ERROR_RECOVERY_FAILED :: int where
  "AI_ERROR_RECOVERY_FAILED = - 8"

datatype ai_state_t =
  AI_STATE_IDLE | AI_STATE_LOADING | AI_STATE_READY | AI_STATE_INFERENCING
  | AI_STATE_POSTPROCESSING | AI_STATE_ERROR

datatype ai_precision_t = AI_PRECISION_INT8 | AI_PRECISION_INT16 | AI_PRECISION_FLOAT32

datatype error_severity_t =
  ERROR_SEVERITY_INFO | ERROR_SEVERITY_WARNING | ERROR_SEVERITY_ERROR
  | ERROR_SEVERITY_CRITICAL | ERROR_SEVERITY_FATAL

text \<open>
  A camera frame. \<open>frame_data\<close> is the buffer behind the \<open>data\<close> pointer, read as
  RGB565 pixels (\<open>uint16_t\<close>), in row order.
\<close>

record frame_buffer_t =
  frame_data :: "u16 list"
  frame_size :: u32
  frame_timestamp :: u32
  frame_ready :: u8

text \<open>
  A finite \<open>float\<close> is modelled by the real number it denotes, and an arithmetic
  operation on floats by the exact operation followed by rounding to the nearest binary32
  value, ties to even (\<open>f32_round\<close>): the value is scaled by the unit in the last place
  of its binade, rounded to an integer and scaled back. The exponent is searched in the
  range of binary32, from -126 to 127, so a value below \<open>2 ^ -126\<close> is rounded on the
  subnormal grid. Every operation rounds on its own (no fused multiply-add). A literal such
  as \<open>0.92f\<close> is \<open>f32_round 0.92\<close>, and a comparison of floats is the comparison of the
  reals. NaN, the infinities and overflow beyond the largest float are not modelled; the
  modelled code computes with confidences between 0 and 1 and with counters.
\<close>

definition pow2 :: "int \<Rightarrow> real" where
  "pow2 k = (if 0 \<le> k then 2 ^ nat k else 1 / 2 ^ nat (- k))"

primrec exp_up :: "nat \<Rightarrow> real \<Rightarrow> int \<Rightarrow> int" where
  "exp_up 0 y e = e"
| "exp_up (Suc n) y e = (if 2 \<le> y then exp_up n (y / 2) (e + 1) else e)"

primrec exp_down :: "nat \<Rightarrow> real \<Rightarrow> int \<Rightarrow> int" where
  "exp_down 0 y e = e"
| "exp_down (Suc n) y e = (if y < 1 then exp_down n (y * 2) (e - 1) else e)"

text \<open>The binary exponent of \<open>x\<close>, kept within the exponents of binary32.\<close>

definition f32_exponent :: "real \<Rightarrow> int" where
  "f32_exponent x = (if 1 \<le> \<bar>x\<bar> then exp_up 127 \<bar>x\<bar> 0 else exp_down 126 \<bar>x\<bar> 0)"

definition round_half_even :: "real \<Rightarrow> int" where
  "round_half_even r =
     (let f = \<lfloor>r\<rfloor>; d = r - of_int f
      in if d < 1 / 2 then f else if 1 / 2 < d then f + 1 else if even f then f else f + 1)"

definition f32_round :: "real \<Rightarrow> real" where
  "f32_round x = (let u = pow2 (f32_exponent x - 23) in of_int (round_half_even (x / u)) * u)"

definition f32_add :: "real \<Rightarrow> real \<Rightarrow> real" where
  "f32_add a b = f32_round (a + b)"

definition f32_mul :: "real \<Rightarrow> real \<Rightarrow> real" where
  "f32_mul a b = f32_round (a * b)"

definition f32_div :: "real \<Rightarrow> real \<Rightarrow> real" where
  "f32_div a b = f32_round (a / b)"

text \<open>The conversions of an \<open>int\<close> that is not negative and of a \<open>uint32_t\<close> to \<open>float\<close>.\<close>

definition f32_of_nat :: "nat \<Rightarrow> real" where
  "f32_of_nat n = f32_round (real n)"

definition f32_of_u32 :: "u32 \<Rightarrow> real" where
  "f32_of_u32 w = f32_round (real (unat w))"

text \<open>A C string is the list of its characters before the terminating NUL.\<close>

record ocr_result_t =
  result_text :: string
  confidence :: real
  char_count :: u32
  word_count :: u32
  bbox_count :: u32
  timestamp :: u32
  language_detected :: u8

record text_bbox_t =
  bbox_x :: u16
  bbox_y :: u16
  bbox_width :: u16
  bbox_height :: u16
  bbox_confidence :: real
  text_direction :: u8

text \<open>
  The fields of \<open>neural_art_model_t\<close> that the modelled functions read or write
  (\<open>precision\<close>, \<open>input_size\<close> and \<open>output_size\<close> are never touched by them).
\<close>

record neural_art_model_t =
  model_data :: addr
  model_size :: u32
  npu_handle :: addr
  loaded :: u8

record ai_performance_stats_t =
  total_inferences :: u32
  successful_inferences :: u32
  failed_inferences :: u32
  min_inference_time_us :: u32
  max_inference_time_us :: u32
  avg_inference_time_us :: u32
  last_inference_time_us :: u32
  current_memory_usage :: u32
  peak_memory_usage :: u32
  memory_leaks_detected :: u32
  avg_confidence_score :: real
  low_confidence_count :: u32
  character_accuracy :: u32

text \<open>
  \<open>ai_task_config_t\<close>. The field \<open>max_inference_time_us\<close> of the source is
  \<open>max_inference_time\<close> here, since the statistics have a field of the same name.
  Likewise \<open>text\<close> of \<open>ocr_result_t\<close> is \<open>result_text\<close>, and the fields of
  \<open>frame_buffer_t\<close> and \<open>text_bbox_t\<close> carry the prefixes \<open>frame_\<close> and \<open>bbox_\<close>.
\<close>

record ai_task_config_t =
  precision_mode :: ai_precision_t
  enable_preprocessing :: u8
  enable_postprocessing :: u8
  confidence_threshold :: real
  max_inference_time :: u32
  debug_enabled :: u8

text \<open>
  \<open>ai_task_context_t\<close>, without the buffer pointers that no modelled function uses.
  The array \<open>models[AI_MODEL_COUNT]\<close> is a function of the index.
\<close>

record ai_task_context_t =
  current_state :: ai_state_t
  config :: ai_task_config_t
  models :: "nat \<Rightarrow> neural_art_model_t"
  stats :: ai_performance_stats_t
  error_code :: u32
  consecutive_errors :: u32
  recovery_needed :: u8

text \<open>
  Everything the inference task reads or writes: the allocator's globals, the global
  \<open>ai_context\<close>, and what it sends to the other tasks. \<open>audio_queue\<close> lists the results
  passed to \<open>audio_queue_ocr_result\<close> and \<open>system_log\<close> the arguments (severity, task,
  code, context) of the \<open>system_log_error\<close> calls, oldest first. \<open>recovery_attempts\<close>
  counts the calls of \<open>ai_recovery_attempt\<close>; it is not a variable of the program.
\<close>

record ai_world =
  pool :: ai_memory
  ai_context :: ai_task_context_t
  audio_queue :: "ocr_result_t list"
  system_log :: "(error_severity_t \<times> u8 \<times> u32 \<times> u32) list"
  recovery_attempts :: nat

text \<open>
  What the accelerator runtime and the other tasks answer during one call. These
  functions are not part of the repository: \<open>neural_art_init\<close>, \<open>neural_art_get_handle\<close>,
  the four-argument \<open>neural_art_load_model\<close> (status and the model struct it fills in),
  the \<open>neural_art_inference\<close> status for the detection model and for the recognition
  model on region \<open>i\<close>, and \<open>tts_detect_language\<close>.
\<close>

record npu_env =
  npu_init_ok :: bool
  npu_get_handle :: addr
  npu_load_model :: "nat \<Rightarrow> neural_art_model_t \<Rightarrow> bool \<times> neural_art_model_t"
  detect_ok :: bool
  recognize_ok :: "nat \<Rightarrow> bool"
  tts_detect_language :: "string \<Rightarrow> u8"

definition stats_of :: "ai_world \<Rightarrow> ai_performance_stats_t" where
  "stats_of w = stats (ai_context w)"

definition with_stats :: "(ai_performance_stats_t \<Rightarrow> ai_performance_stats_t) \<Rightarrow> ai_world \<Rightarrow> ai_world" where
  "with_stats f w = w\<lparr> ai_context := (ai_context w)\<lparr> stats := f (stats (ai_context w)) \<rparr> \<rparr>"

definition system_log_error :: "error_severity_t \<Rightarrow> u8 \<Rightarrow> u32 \<Rightarrow> u32 \<Rightarrow> ai_world \<Rightarrow> ai_world" where
  "system_log_error severity task code context w =
     w\<lparr> system_log := system_log w @ [(severity, task, code, context)] \<rparr>"

subsection \<open>Statistics (src/ai/ai_memory.c)\<close>

text \<open>\<open>ai_stats_reset\<close>: \<open>memset\<close> to zero, then the minimum to \<open>UINT32_MAX\<close>.\<close>

definition ai_stats_reset :: ai_performance_stats_t where
  "ai_stats_reset =
     \<lparr> total_inferences = 0, successful_inferences = 0, failed_inferences = 0,
       min_inference_time_us = 0xFFFFFFFF, max_inference_time_us = 0,
       avg_inference_time_us = 0, last_inference_time_us = 0,
       current_memory_usage = 0, peak_memory_usage = 0, memory_leaks_detected = 0,
       avg_confidence_score = 0, low_confidence_count = 0, character_accuracy = 0 \<rparr>"

definition ai_stats_update_timing :: "u32 \<Rightarrow> ai_performance_stats_t \<Rightarrow> ai_performance_stats_t" where
  "ai_stats_update_timing inference_time_us st =
     (let s1 = st\<lparr> last_inference_time_us := inference_time_us \<rparr>;
          s2 = (if inference_time_us < min_inference_time_us s1
                then s1\<lparr> min_inference_time_us := inference_time_us \<rparr> else s1);
          s3 = (if inference_time_us > max_inference_time_us s2
                then s2\<lparr> max_inference_time_us := inference_time_us \<rparr> else s2)
      in if successful_inferences s3 > 0
         then s3\<lparr> avg_inference_time_us :=
                  (avg_inference_time_us s3 * (successful_inferences s3 - 1) + inference_time_us)
                    div successful_inferences s3 \<rparr>
         else s3\<lparr> avg_inference_time_us := inference_time_us \<rparr>)"

text \<open>
  \<open>ai_stats_update_quality\<close>; \<open>threshold\<close> is \<open>ai_context.config.confidence_threshold\<close>.
\<close>

definition ai_stats_update_quality :: "real \<Rightarrow> real \<Rightarrow> u32 \<Rightarrow> ai_performance_stats_t \<Rightarrow> ai_performance_stats_t" where
  "ai_stats_update_quality threshold conf accuracy st =
     (let s1 = (if successful_inferences st > 0
                then st\<lparr> avg_confidence_score :=
                         f32_div
                           (f32_add
                              (f32_mul (avg_confidence_score st)
                                 (f32_of_u32 (successful_inferences st - 1)))
                              conf)
                           (f32_of_u32 (successful_inferences st)) \<rparr>
                else st\<lparr> avg_confidence_score := conf \<rparr>);
          s2 = s1\<lparr> character_accuracy := accuracy \<rparr>
      in if conf < threshold
         then s2\<lparr> low_confidence_count := low_confidence_count s2 + 1 \<rparr>
         else s2)"

definition ai_stats_check_targets :: "ai_task_context_t \<Rightarrow> u8" where
  "ai_stats_check_targets c =
     (if avg_inference_time_us (stats c) > max_inference_time (config c)
         \<or> character_accuracy (stats c) < 95
         \<or> avg_confidence_score (stats c) < confidence_threshold (config c)
      then 0 else 1)"

subsection \<open>Image preprocessing\<close>

text \<open>
  The body of the two loops of \<open>ocr_preprocess_image\<close> for one destination pixel: the
  channels of the four source pixels are averaged and packed again. The C expressions
  are evaluated in \<open>int\<close>; the sums stay below 256, so 32-bit words give the same
  values. The assignment to \<open>dst[...]\<close> keeps the low 16 bits.
\<close>

definition downsample_pixel :: "u16 \<Rightarrow> u16 \<Rightarrow> u16 \<Rightarrow> u16 \<Rightarrow> u16" where
  "downsample_pixel pixel1 pixel2 pixel3 pixel4 =
     (let avg_r = (drop_bit 11 (ucast pixel1 :: u32) + drop_bit 11 (ucast pixel2)
                   + drop_bit 11 (ucast pixel3) + drop_bit 11 (ucast pixel4)) div 4;
          avg_g = ((drop_bit 5 (ucast pixel1 :: u32) AND 0x3F)
                   + (drop_bit 5 (ucast pixel2) AND 0x3F)
                   + (drop_bit 5 (ucast pixel3) AND 0x3F)
                   + (drop_bit 5 (ucast pixel4) AND 0x3F)) div 4;
          avg_b = (((ucast pixel1 :: u32) AND 0x1F) + (ucast pixel2 AND 0x1F)
                   + (ucast pixel3 AND 0x1F) + (ucast pixel4 AND 0x1F)) div 4
      in ucast (push_bit 11 avg_r OR push_bit 5 avg_g OR avg_b))"

definition preprocess_pixel :: "u16 list \<Rightarrow> nat \<Rightarrow> nat \<Rightarrow> u16" where
  "preprocess_pixel src y x =
     (let src_x = x * 2; src_y = y * 2
      in downsample_pixel
           (src ! (src_y * CAMERA_WIDTH + src_x))
           (src ! (src_y * CAMERA_WIDTH + src_x + 1))
           (src ! ((src_y + 1) * CAMERA_WIDTH + src_x))
           (src ! ((src_y + 1) * CAMERA_WIDTH + src_x + 1)))"

text \<open>
  \<open>ocr_preprocess_image\<close>. The frame pointer may be null (\<open>None\<close>); \<open>output_nonnull\<close>
  says whether \<open>output_buffer\<close> is. The result is the return code and the pixels written
  to \<open>dst[0 .. 320 * 240 - 1]\<close>, row after row (none on the error return). The source
  reads \<open>src\<close> up to index \<open>479 * 640 + 639\<close> without looking at \<open>size\<close>; on a shorter
  buffer that read is out of bounds and the call has no defined result (\<open>None\<close>).
\<close>

definition ocr_preprocess_image :: "frame_buffer_t option \<Rightarrow> bool \<Rightarrow> (int \<times> u16 list) option" where
  "ocr_preprocess_image input_frame output_nonnull =
     (case input_frame of
        None \<Rightarrow> Some (AI_ERROR_INPUT_INVALID, [])
      | Some f \<Rightarrow>
          if \<not> output_nonnull then Some (AI_ERROR_INPUT_INVALID, [])
          else if length (frame_data f) < CAMERA_WIDTH * CAMERA_HEIGHT then None
          else Some (0,
                 concat (map (\<lambda>y. map (\<lambda>x. preprocess_pixel (frame_data f) y x)
                                     [0..<OCR_INPUT_WIDTH])
                             [0..<OCR_INPUT_HEIGHT])))"

subsection \<open>Detection, recognition and aggregation\<close>

text \<open>
  \<open>ocr_detect_text\<close>: a scratch buffer from the pool, the detection inference, and the
  placeholder parse of the source, which reports one fixed box. The result is the return
  value (the box count, or a negative error code), the boxes written to \<open>bboxes\<close>, and
  the allocator's globals.
\<close>

definition ocr_detect_text :: "npu_env \<Rightarrow> u32 \<Rightarrow> u32 \<Rightarrow> ai_memory \<Rightarrow> (int \<times> text_bbox_t list \<times> ai_memory) option" where
  "ocr_detect_text env tick max_boxes p =
     (case ai_memory_alloc 1024 tick p of
        (detection_output, p1) \<Rightarrow>
          if detection_output = 0 then Some (AI_ERROR_MEMORY_ALLOC_FAILED, [], p1)
          else if \<not> detect_ok env
          then do { (r, p2) \<leftarrow> ai_memory_free detection_output p1;
                    Some (AI_ERROR_NPU_ERROR, [], p2) }
          else
            let (detected_count, boxes) =
                  (if max_boxes > 0
                   then (1, [\<lparr> bbox_x = of_nat (OCR_INPUT_WIDTH div 4),
                                bbox_y = of_nat (OCR_INPUT_HEIGHT div 4),
                                bbox_width = of_nat (OCR_INPUT_WIDTH div 2),
                                bbox_height = of_nat (OCR_INPUT_HEIGHT div 4),
                                bbox_confidence = f32_round 0.9,
                                text_direction = 0 \<rparr>])
                   else (0, []))
            in do { (r, p2) \<leftarrow> ai_memory_free detection_output p1;
                    Some (detected_count, boxes, p2) })"

text \<open>
  \<open>ocr_recognize_text\<close> for region \<open>i\<close> of the frame. The pointer arguments are never
  null at its only call site, so the first test of the source cannot fire. For the box
  that \<open>ocr_detect_text\<close> reports, the crop loop stays inside the image and the region
  buffer, and it writes payload bytes only. The product
  \<open>bbox->width * bbox->height * 2\<close> is taken modulo \<open>2 ^ 32\<close>. The result is the return
  code, the text and the confidence left in the two output arguments, and the allocator's
  globals; the outputs are not written when the allocation fails.
\<close>

definition ocr_recognize_text :: "npu_env \<Rightarrow> u32 \<Rightarrow> nat \<Rightarrow> text_bbox_t \<Rightarrow> ai_memory \<Rightarrow> (int \<times> string \<times> real \<times> ai_memory) option" where
  "ocr_recognize_text env tick i bbox p =
     (case ai_memory_alloc (ucast (bbox_width bbox) * ucast (bbox_height bbox) * 2) tick p of
        (region_buffer, p1) \<Rightarrow>
          if region_buffer = 0 then Some (AI_ERROR_MEMORY_ALLOC_FAILED, [], 0, p1)
          else if recognize_ok env i
          then do { (r, p2) \<leftarrow> ai_memory_free region_buffer p1;
                    Some (0, take 63 ''Sample Text'', f32_round 0.92, p2) }
          else do { (r, p2) \<leftarrow> ai_memory_free region_buffer p1;
                    Some (AI_ERROR_NPU_ERROR, [], 0, p2) })"

text \<open>
  \<open>strcat\<close> into a \<open>char\<close> array of \<open>OCR_MAX_TEXT_LENGTH\<close> bytes: the characters and the
  terminating NUL must fit, otherwise the write runs past the array and the program has
  no defined result. \<open>strncat\<close> appends at most \<open>n\<close> characters.
\<close>

definition strcat_text :: "string \<Rightarrow> string \<Rightarrow> string option" where
  "strcat_text dest src =
     (if length dest + length src + 1 \<le> OCR_MAX_TEXT_LENGTH then Some (dest @ src) else None)"

definition strncat_text :: "string \<Rightarrow> string \<Rightarrow> nat \<Rightarrow> string" where
  "strncat_text dest src n = dest @ take n src"

text \<open>
  The guarded statements of the recognition loop of \<open>ocr_process_frame\<close>: the fragment is
  appended to \<open>combined_text\<close> (after a space when text is there already), its confidence is
  added to \<open>total_confidence\<close> in \<open>float\<close>, and \<open>recognized_regions\<close> is incremented.
\<close>

definition ocr_include_region :: "string \<times> real \<times> nat \<Rightarrow> string \<Rightarrow> real \<Rightarrow> (string \<times> real \<times> nat) option" where
  "ocr_include_region acc region_text region_confidence =
     (case acc of
        (combined_text, total_confidence, recognized_regions) \<Rightarrow>
          do { ct \<leftarrow> (if length combined_text > 0
                       then strcat_text combined_text '' ''
                       else Some combined_text);
               Some (strncat_text ct region_text (OCR_MAX_TEXT_LENGTH - length ct - 1),
                     f32_add total_confidence region_confidence,
                     recognized_regions + 1) })"

text \<open>
  The body of the recognition loop after the call of \<open>ocr_recognize_text\<close>: the locals
  \<open>combined_text\<close>, \<open>total_confidence\<close> and \<open>recognized_regions\<close>, and the outcome
  \<open>(processing_result, region_text, region_confidence)\<close> of the call.
\<close>

definition ocr_accept_region :: "string \<times> real \<times> nat \<Rightarrow> int \<times> string \<times> real \<Rightarrow> (string \<times> real \<times> nat) option" where
  "ocr_accept_region acc outcome =
     (case outcome of
        (processing_result, region_text, region_confidence) \<Rightarrow>
          if processing_result = 0 \<and> region_confidence > 0.5
          then ocr_include_region acc region_text region_confidence
          else Some acc)"

text \<open>
  The recognition loop \<open>for (i = 0; i < detected_boxes && i < 16; i++)\<close>, started at
  index \<open>i\<close> on the boxes still to visit.
\<close>

fun ocr_recognize_regions :: "npu_env \<Rightarrow> u32 \<Rightarrow> nat \<Rightarrow> text_bbox_t list \<Rightarrow> string \<times> real \<times> nat \<Rightarrow> ai_memory \<Rightarrow> ((string \<times> real \<times> nat) \<times> ai_memory) option" where
  "ocr_recognize_regions env tick i [] acc p = Some (acc, p)"
| "ocr_recognize_regions env tick i (bbox # rest) acc p =
     (case ocr_recognize_text env tick i bbox p of
        None \<Rightarrow> None
      | Some (processing_result, region_text, region_confidence, p1) \<Rightarrow>
          (case ocr_accept_region acc (processing_result, region_text, region_confidence) of
             None \<Rightarrow> None
           | Some acc' \<Rightarrow> ocr_recognize_regions env tick (Suc i) rest acc' p1))"

text \<open>The \<open>ocr_result_t\<close> after \<open>memset(result, 0, ...)\<close>.\<close>

definition cleared_result :: ocr_result_t where
  "cleared_result =
     \<lparr> result_text = [], confidence = 0, char_count = 0, word_count = 0,
       bbox_count = 0, timestamp = 0, language_detected = 0 \<rparr>"

text \<open>
  Step 4 of \<open>ocr_process_frame\<close>: the result is filled in only when a region was
  accepted. \<open>strncpy\<close> copies at most 255 characters into the zeroed buffer.
\<close>

definition ocr_postprocess :: "npu_env \<Rightarrow> string \<times> real \<times> nat \<Rightarrow> ocr_result_t \<Rightarrow> ocr_result_t" where
  "ocr_postprocess env acc result =
     (case acc of
        (combined_text, total_confidence, recognized_regions) \<Rightarrow>
          if recognized_regions > 0
          then
            let txt = take (OCR_MAX_TEXT_LENGTH - 1) combined_text
            in result\<lparr> result_text := txt,
                       confidence := f32_div total_confidence (f32_of_nat recognized_regions),
                       char_count := of_nat (length txt),
                       word_count := 1 + of_nat (length (filter (\<lambda>c. c = CHR '' '') txt)),
                       language_detected := tts_detect_language env txt \<rparr>
          else result)"

text \<open>The statistics update at the end of \<open>ocr_process_frame\<close>.\<close>

definition ocr_count_inference :: "nat \<Rightarrow> ai_performance_stats_t \<Rightarrow> ai_performance_stats_t" where
  "ocr_count_inference recognized_regions st =
     (let s1 = st\<lparr> total_inferences := total_inferences st + 1 \<rparr>
      in if recognized_regions > 0
         then s1\<lparr> successful_inferences := successful_inferences s1 + 1 \<rparr>
         else s1\<lparr> failed_inferences := failed_inferences s1 + 1 \<rparr>)"

text \<open>
  \<open>ocr_process_frame(frame, result)\<close>. \<open>frame\<close> may be null; \<open>result\<close> is never null at a
  call site of the source and \<open>result0\<close> is what the struct held before the call. The
  outcome is the return code, the struct after the call, and the new state.
\<close>

definition ocr_process_frame :: "npu_env \<Rightarrow> u32 \<Rightarrow> frame_buffer_t option \<Rightarrow> ocr_result_t \<Rightarrow> ai_world \<Rightarrow> (int \<times> ocr_result_t \<times> ai_world) option" where
  "ocr_process_frame env tick frame result0 w =
     (case frame of
        None \<Rightarrow> Some (AI_ERROR_INPUT_INVALID, result0, w)
      | Some f \<Rightarrow>
          if frame_ready f = 0 then Some (AI_ERROR_INPUT_INVALID, result0, w)
          else
            let result1 = cleared_result\<lparr> timestamp := tick \<rparr>
            in (case ai_memory_alloc (of_nat (OCR_INPUT_WIDTH * OCR_INPUT_HEIGHT * 2)) tick (pool w) of
                  (preprocessed_image, p1) \<Rightarrow>
                    if preprocessed_image = 0
                    then Some (AI_ERROR_MEMORY_ALLOC_FAILED, result1, w\<lparr> pool := p1 \<rparr>)
                    else do {
                      (processing_result, image) \<leftarrow> ocr_preprocess_image frame True;
                      if processing_result \<noteq> 0
                      then do { (r, p2) \<leftarrow> ai_memory_free preprocessed_image p1;
                                Some (processing_result, result1, w\<lparr> pool := p2 \<rparr>) }
                      else do {
                        (detected_boxes, text_boxes, p2) \<leftarrow> ocr_detect_text env tick 16 p1;
                        if detected_boxes < 0
                        then do { (r, p3) \<leftarrow> ai_memory_free preprocessed_image p2;
                                  Some (detected_boxes, result1, w\<lparr> pool := p3 \<rparr>) }
                        else do {
                          let result2 = result1\<lparr> bbox_count := word_of_int detected_boxes \<rparr>;
                          (acc, p3) \<leftarrow> ocr_recognize_regions env tick 0
                                         (take (nat (min detected_boxes 16)) text_boxes)
                                         ([], 0, 0) p2;
                          let result3 = ocr_postprocess env acc result2;
                          (r, p4) \<leftarrow> ai_memory_free preprocessed_image p3;
                          Some (0, result3,
                                with_stats (ocr_count_inference (snd (snd acc)))
                                  (w\<lparr> pool := p4 \<rparr>))
                        }
                      }
                    }))"

subsection \<open>Error handling and recovery\<close>

text \<open>\<open>neural_art_is_model_ready\<close> on a non-null model pointer (src/ai/ai_memory.c).\<close>

definition neural_art_is_model_ready :: "neural_art_model_t \<Rightarrow> bool" where
  "neural_art_is_model_ready m = (loaded m \<noteq> 0 \<and> model_data m \<noteq> 0 \<and> model_size m > 0)"

definition ai_neural_art_init_npu :: "npu_env \<Rightarrow> ai_task_context_t \<Rightarrow> int \<times> ai_task_context_t" where
  "ai_neural_art_init_npu env c =
     (if \<not> npu_init_ok env then (AI_ERROR_NPU_ERROR, c)
      else
        let c1 = c\<lparr> models := (models c)(0 := (models c 0)\<lparr> npu_handle := npu_get_handle env \<rparr>) \<rparr>
        in if npu_handle (models c1 0) = 0 then (AI_ERROR_NPU_ERROR, c1) else (0, c1))"

text \<open>The verification loop of \<open>ai_load_ocr_models\<close> over the model indices.\<close>

fun verify_models :: "nat list \<Rightarrow> ai_task_context_t \<Rightarrow> int \<times> ai_task_context_t" where
  "verify_models [] c = (0, c)"
| "verify_models (i # rest) c =
     (if \<not> neural_art_is_model_ready (models c i) then (AI_ERROR_MODEL_LOAD_FAILED, c)
      else verify_models rest (c\<lparr> models := (models c)(i := (models c i)\<lparr> loaded := 1 \<rparr>) \<rparr>))"

definition ai_load_ocr_models :: "npu_env \<Rightarrow> ai_task_context_t \<Rightarrow> int \<times> ai_task_context_t" where
  "ai_load_ocr_models env c =
     (case npu_load_model env AI_MODEL_TEXT_DETECTION (models c AI_MODEL_TEXT_DETECTION) of
        (ok1, m1) \<Rightarrow>
          let c1 = c\<lparr> models := (models c)(AI_MODEL_TEXT_DETECTION := m1) \<rparr>
          in if \<not> ok1 then (AI_ERROR_MODEL_LOAD_FAILED, c1)
             else
               (case npu_load_model env AI_MODEL_TEXT_RECOGNITION (models c1 AI_MODEL_TEXT_RECOGNITION) of
                  (ok2, m2) \<Rightarrow>
                    let c2 = c1\<lparr> models := (models c1)(AI_MODEL_TEXT_RECOGNITION := m2) \<rparr>
                    in if \<not> ok2 then (AI_ERROR_MODEL_LOAD_FAILED, c2)
                       else verify_models [0..<AI_MODEL_COUNT] c2))"

text \<open>
  \<open>ai_self_test\<close>; the result of \<open>ai_stats_check_targets\<close> only selects a message.
\<close>

definition ai_self_test :: "u32 \<Rightarrow> ai_world \<Rightarrow> (int \<times> ai_world) option" where
  "ai_self_test tick w =
     (if npu_handle (models (ai_context w) 0) = 0 then Some (- 1, w)
      else if list_ex (\<lambda>i. loaded (models (ai_context w) i) = 0) [0..<AI_MODEL_COUNT]
      then Some (- 2, w)
      else
        (case ai_memory_alloc 1024 tick (pool w) of
           (test_buffer, p1) \<Rightarrow>
             if test_buffer = 0 then Some (- 3, w\<lparr> pool := p1 \<rparr>)
             else do { (r, p2) \<leftarrow> ai_memory_free test_buffer p1;
                       Some (0, w\<lparr> pool := p2 \<rparr>) }))"

text \<open>
  \<open>ai_recovery_attempt\<close>. Switching the accelerator's power off and on changes nothing
  that is modelled.
\<close>

definition ai_recovery_attempt :: "npu_env \<Rightarrow> u32 \<Rightarrow> ai_world \<Rightarrow> (int \<times> ai_world) option" where
  "ai_recovery_attempt env tick w =
     (let w1 = w\<lparr> recovery_attempts := recovery_attempts w + 1,
                  ai_context := (ai_context w)\<lparr> recovery_needed := 1 \<rparr> \<rparr>
      in (case ai_neural_art_init_npu env (ai_context w1) of
            (r1, c2) \<Rightarrow>
              if r1 \<noteq> 0 then Some (AI_ERROR_RECOVERY_FAILED, w1\<lparr> ai_context := c2 \<rparr>)
              else
                (case ai_load_ocr_models env c2 of
                   (r2, c3) \<Rightarrow>
                     if r2 \<noteq> 0 then Some (AI_ERROR_RECOVERY_FAILED, w1\<lparr> ai_context := c3 \<rparr>)
                     else
                       let c4 = c3\<lparr> consecutive_errors := 0,
                                    error_code := word_of_int AI_ERROR_NONE,
                                    recovery_needed := 0 \<rparr>
                       in do { (r3, w5) \<leftarrow> ai_self_test tick (w1\<lparr> ai_context := c4 \<rparr>);
                               if r3 \<noteq> 0 then Some (AI_ERROR_RECOVERY_FAILED, w5)
                               else Some (0, w5) })))"

text \<open>\<open>ai_handle_inference_error(error_code)\<close>.\<close>

definition ai_handle_inference_error :: "npu_env \<Rightarrow> u32 \<Rightarrow> u32 \<Rightarrow> ai_world \<Rightarrow> (int \<times> ai_world) option" where
  "ai_handle_inference_error env tick code w =
     (let c1 = (ai_context w)\<lparr> error_code := code,
                                consecutive_errors := consecutive_errors (ai_context w) + 1 \<rparr>;
          w1 = system_log_error ERROR_SEVERITY_ERROR TASK_ID_AI_TASK code
                 (consecutive_errors c1) (w\<lparr> ai_context := c1 \<rparr>)
      in if consecutive_errors (ai_context w1) > 5
         then ai_recovery_attempt env tick w1
         else Some (0, w1))"

text \<open>
  A run of reported inference errors: one call of \<open>ai_handle_inference_error\<close> per entry
  (what the runtime answers during the call, the clock, the error code), in order.
\<close>

fun report_errors :: "(npu_env \<times> u32 \<times> u32) list \<Rightarrow> ai_world \<Rightarrow> ai_world option" where
  "report_errors [] w = Some w"
| "report_errors ((env, tick, code) # rest) w =
     (case ai_handle_inference_error env tick code w of
        None \<Rightarrow> None
      | Some (r, w1) \<Rightarrow> report_errors rest w1)"

subsection \<open>The task loop\<close>

text \<open>
  The part of the loop body of \<open>ai_task_entry\<close> that follows the call of
  \<open>ocr_process_frame\<close>: \<open>processing_result\<close> and \<open>ocr_result\<close> are what the call left,
  \<open>inference_time_us\<close> the measured duration.
\<close>

definition ai_task_handle_result :: "npu_env \<Rightarrow> u32 \<Rightarrow> int \<Rightarrow> ocr_result_t \<Rightarrow> u32 \<Rightarrow> ai_world \<Rightarrow> ai_world option" where
  "ai_task_handle_result env tick processing_result ocr_result inference_time_us w =
     (if processing_result = 0
      then
        let threshold = confidence_threshold (config (ai_context w));
            w1 = with_stats (ai_stats_update_timing inference_time_us) w;
            w2 = with_stats (ai_stats_update_quality threshold (confidence ocr_result)
                               (if char_count ocr_result > 0 then 95 else 0)) w1;
            w3 = (if confidence ocr_result \<ge> threshold
                  then w2\<lparr> audio_queue := audio_queue w2 @ [ocr_result] \<rparr>
                  else with_stats (\<lambda>st. st\<lparr> low_confidence_count := low_confidence_count st + 1 \<rparr>) w2)
        in Some (if inference_time_us > max_inference_time (config (ai_context w3))
                 then system_log_error ERROR_SEVERITY_WARNING TASK_ID_AI_TASK
                        (word_of_int AI_ERROR_INFERENCE_TIMEOUT) inference_time_us w3
                 else w3)
      else
        do { (r, w1) \<leftarrow> ai_handle_inference_error env tick (word_of_int processing_result) w;
             Some (with_stats (\<lambda>st. st\<lparr> failed_inferences := failed_inferences st + 1 \<rparr>) w1) })"

text \<open>
  The frame branch of one iteration of the loop of \<open>ai_task_entry\<close>: \<open>frame\<close> is what
  \<open>camera_get_frame\<close> returned, \<open>ocr_result0\<close> the uninitialised local \<open>ocr_result\<close>.
\<close>

definition ai_task_frame_cycle :: "npu_env \<Rightarrow> u32 \<Rightarrow> u32 \<Rightarrow> frame_buffer_t option \<Rightarrow> ocr_result_t \<Rightarrow> ai_world \<Rightarrow> ai_world option" where
  "ai_task_frame_cycle env tick inference_time_us frame ocr_result0 w =
     (case frame of
        None \<Rightarrow> Some w
      | Some f \<Rightarrow>
          if frame_ready f = 0 then Some w
          else do {
            let w1 = w\<lparr> ai_context := (ai_context w)\<lparr> current_state := AI_STATE_INFERENCING \<rparr> \<rparr>;
            (processing_result, ocr_result, w2) \<leftarrow> ocr_process_frame env tick frame ocr_result0 w1;
            w3 \<leftarrow> ai_task_handle_result env tick processing_result ocr_result inference_time_us w2;
            Some (w3\<lparr> ai_context := (ai_context w3)\<lparr> current_state := AI_STATE_READY \<rparr> \<rparr>)
          })"

text \<open>
  \<open>create_ai_task\<close>: the context is zeroed and the default configuration is set.
\<close>

definition create_ai_task :: ai_task_context_t where
  "create_ai_task =
     \<lparr> current_state = AI_STATE_IDLE,
       config = \<lparr> precision_mode = AI_PRECISION_INT8, enable_preprocessing = 0,
                  enable_postprocessing = 0, confidence_threshold = f32_round 0.95,
                  max_inference_time = 8000, debug_enabled = 1 \<rparr>,
       models = (\<lambda>i. \<lparr> model_data = 0, model_size = 0, npu_handle = 0, loaded = 0 \<rparr>),
       stats = ai_stats_reset\<lparr> min_inference_time_us := 0 \<rparr>,
       error_code = 0,
       consecutive_errors = 0,
       recovery_needed = 0 \<rparr>"

subsection \<open>Notions used in the statements\<close>

text \<open>
  A pool in good shape: the capacity is the build-time constant, no more than the capacity
  is allocated, and the buffer lies inside the 32-bit address space.
\<close>

definition pool_ok :: "ai_memory \<Rightarrow> bool" where
  "pool_ok p = (pool_size p = AI_MEMORY_POOL_SIZE \<and> allocated_size p \<le> pool_size p
                 \<and> unat (pool_start p) + unat (pool_size p) < 2 ^ 32)"

text \<open>Two allocator states with the same list head, fill level and pool.\<close>

definition same_pool :: "ai_memory \<Rightarrow> ai_memory \<Rightarrow> bool" where
  "same_pool p p' = (allocated_blocks p' = allocated_blocks p \<and> allocated_size p' = allocated_size p
                      \<and> pool_start p' = pool_start p \<and> pool_size p' = pool_size p)"

text \<open>The size \<open>ocr_recognize_text\<close> requests for a box.\<close>

definition bbox_bytes :: "text_bbox_t \<Rightarrow> u32" where
  "bbox_bytes bbox = ucast (bbox_width bbox) * ucast (bbox_height bbox) * 2"



text \<open>The state with \<open>config.confidence_threshold\<close> set to \<open>th\<close>.\<close>

definition with_threshold :: "real \<Rightarrow> ai_world \<Rightarrow> ai_world" where
  "with_threshold th w =
     w\<lparr> ai_context := (ai_context w)\<lparr> config := (config (ai_context w))\<lparr> confidence_threshold := th \<rparr> \<rparr> \<rparr>"

subsection \<open>Inputs for concrete runs\<close>

text \<open>
  A runtime that initialises and loads every model, and whose detection and recognition
  inferences succeed or fail as the two flags say.
\<close>

definition test_env :: "bool \<Rightarrow> bool \<Rightarrow> npu_env" where
  "test_env det rec =
     \<lparr> npu_init_ok = True,
       npu_get_handle = 1,
       npu_load_model = (\<lambda>i m. (True, m\<lparr> model_data := 1, model_size := 1, loaded := 1 \<rparr>)),
       detect_ok = det,
       recognize_ok = (\<lambda>i. rec),
       tts_detect_language = (\<lambda>t. 1) \<rparr>"

text \<open>A ready 640 x 480 frame of one colour.\<close>

definition uniform_frame :: "u16 \<Rightarrow> frame_buffer_t" where
  "uniform_frame c =
     \<lparr> frame_data = replicate (CAMERA_WIDTH * CAMERA_HEIGHT) c,
       frame_size = of_nat (CAMERA_WIDTH * CAMERA_HEIGHT * 2),
       frame_timestamp = 0,
       frame_ready = 1 \<rparr>"

text \<open>
  The frame that \<open>ai_validate_model_performance\<close> and \<open>ai_benchmark\<close> build and pass to
  \<open>ocr_process_frame\<close>: \<open>uint8_t test_image[OCR_INPUT_WIDTH * OCR_INPUT_HEIGHT * 2]\<close>
  filled with 0x80 by \<open>memset\<close>, that is 320 x 240 pixels 0x8080, with \<open>size\<close> the size
  of the array and \<open>ready = 1\<close>.
\<close>

definition validation_test_frame :: "u32 \<Rightarrow> frame_buffer_t" where
  "validation_test_frame tick =
     \<lparr> frame_data = replicate (OCR_INPUT_WIDTH * OCR_INPUT_HEIGHT) 0x8080,
       frame_size = of_nat (OCR_INPUT_WIDTH * OCR_INPUT_HEIGHT * 2),
       frame_timestamp = tick,
       frame_ready = 1 \<rparr>"

text \<open>
  The result \<open>ocr_process_frame\<close> leaves when its one region is recognised, with the clock
  at 0 and English reported as the language.
\<close>

definition sample_result :: ocr_result_t where
  "sample_result =
     \<lparr> result_text = ''Sample Text'', confidence = f32_round 0.92, char_count = 11,
       word_count = 2, bbox_count = 1, timestamp = 0, language_detected = 1 \<rparr>"

text \<open>
  Successive iterations of the loop of \<open>ai_task_entry\<close>, each given by what the runtime
  answers, the clock, the return value and the result of \<open>ocr_process_frame\<close>, and the
  measured time: the part of the body after that call is run for each entry in turn.
\<close>

fun run_results :: "(npu_env \<times> u32 \<times> int \<times> ocr_result_t \<times> u32) list \<Rightarrow> ai_world \<Rightarrow> ai_world option" where
  "run_results [] w = Some w"
| "run_results ((env, tick, processing_result, ocr_result, inference_time_us) # rest) w =
     (case ai_task_handle_result env tick processing_result ocr_result inference_time_us w of
        None \<Rightarrow> None
      | Some w1 \<Rightarrow> run_results rest w1)"

text \<open>
  Two iterations of that loop: one in which \<open>ocr_process_frame\<close> reports a failed
  detection inference, and one in which it returns 0 with the result above.
\<close>

definition failed_iteration :: "npu_env \<times> u32 \<times> int \<times> ocr_result_t \<times> u32" where
  "failed_iteration = (test_env False True, 0, AI_ERROR_NPU_ERROR, cleared_result, 7000)"

definition successful_iteration :: "npu_env \<times> u32 \<times> int \<times> ocr_result_t \<times> u32" where
  "successful_iteration = (test_env True True, 0, 0, sample_result, 7000)"

text \<open>The state after \<open>create_ai_task\<close> and \<open>ai_memory_init\<close>, with the pool at \<open>buf\<close>.\<close>

definition initial_world :: "addr \<Rightarrow> ai_world" where
  "initial_world buf =
     \<lparr> pool = ai_memory_init buf zero_memory,
       ai_context = create_ai_task,
       audio_queue = [],
       system_log = [],
       recovery_attempts = 0 \<rparr>"

section \<open>Properties of the pool allocator\<close>

lemmas pool_defs =
  ai_memory_free_def ai_memory_alloc_def ai_memory_init_def free_finish_def Let_def
  MEMORY_ALIGN_def HEADER_SIZE_def MEMORY_MAGIC_def AI_MEMORY_POOL_SIZE_def
  NPU_MAX_MEMORY_BYTES_def magic_at_def size_at_def timestamp_at_def next_at_def
  data_of_def zero_memory_def

subsection \<open>The failure paths of allocate\<close>

lemma alloc_zero_size: "ai_memory_alloc 0 tick s = (0, s)"
  by (simp add: ai_memory_alloc_def)

lemma alloc_over_capacity:
  "pool_size s <
     allocated_size s + (HEADER_SIZE + ((sz + MEMORY_ALIGN - 1) AND NOT (MEMORY_ALIGN - 1)))
   \<Longrightarrow> ai_memory_alloc sz tick s = (0, s)"
  by (simp add: ai_memory_alloc_def Let_def)

lemma alloc_within_capacity:
  "ai_memory_alloc sz tick s = (p, s') \<Longrightarrow> pool_size s' = pool_size s \<and>
     (s' = s \<or> allocated_size s' \<le> pool_size s')"
  by (auto simp: ai_memory_alloc_def Let_def split: if_splits)

subsection \<open>Frees\<close>


text \<open>
  C7: a free of a non-null pointer whose header does not carry the magic tag adds 1 to
  \<open>leak_count\<close> and changes nothing else: \<open>allocated_size\<close>, \<open>allocation_count\<close>,
  \<open>free_count\<close>, the list head and the whole memory (so the list itself) stay as they
  were. A completed free leaves the tag zeroed, so a second free of the same pointer is
  such a call.
\<close>

theorem free_invalid_magic_only_counts_leak:
  "(ptr \<noteq> 0 \<and> mem s (magic_at (ptr - HEADER_SIZE)) \<noteq> MEMORY_MAGIC
      \<longrightarrow> ai_memory_free ptr s = Some (Free_Invalid_Magic, s\<lparr> leak_count := leak_count s + 1 \<rparr>))
   \<and> (ai_memory_free ptr s = Some (Freed, s')
      \<longrightarrow> ai_memory_free ptr s' = Some (Free_Invalid_Magic, s'\<lparr> leak_count := leak_count s' + 1 \<rparr>))"
proof (intro conjI impI)
  assume "ptr \<noteq> 0 \<and> mem s (magic_at (ptr - HEADER_SIZE)) \<noteq> MEMORY_MAGIC"
  then show "ai_memory_free ptr s = Some (Free_Invalid_Magic, s\<lparr> leak_count := leak_count s + 1 \<rparr>)"
    by (simp add: ai_memory_free_def Let_def)
next
  assume fr: "ai_memory_free ptr s = Some (Freed, s')"
  have nz: "ptr \<noteq> 0"
    using fr by (auto simp: ai_memory_free_def)
  have "\<exists>t. s' = free_finish (ptr - HEADER_SIZE) t"
    using fr nz
    by (auto simp: ai_memory_free_def Let_def split: if_splits option.splits)
  then have "mem s' (magic_at (ptr - HEADER_SIZE)) = 0"
    by (auto simp: free_finish_def Let_def)
  then have "mem s' (magic_at (ptr - HEADER_SIZE)) \<noteq> MEMORY_MAGIC"
    by (simp add: MEMORY_MAGIC_def)
  with nz show "ai_memory_free ptr s' = Some (Free_Invalid_Magic, s'\<lparr> leak_count := leak_count s' + 1 \<rparr>)"
    by (simp add: ai_memory_free_def Let_def)
qed

theorem free_invalid_magic_witness:
  "ai_memory_free 0x90000010 (ai_memory_init 0x90000000 zero_memory)
     = Some (Free_Invalid_Magic, (ai_memory_init 0x90000000 zero_memory)\<lparr> leak_count := 1 \<rparr>)
   \<and> (\<exists>s2. ai_memory_free 0x90000010
               (snd (ai_memory_alloc 8 100 (ai_memory_init 0x90000000 zero_memory)))
             = Some (Freed, s2)
          \<and> ai_memory_free 0x90000010 s2
             = Some (Free_Invalid_Magic, s2\<lparr> leak_count := 1 \<rparr>))"
proof -
  let ?s0 = "ai_memory_init 0x90000000 zero_memory"
  let ?s1 = "snd (ai_memory_alloc 8 100 ?s0)"
  have h1: "(0x90000010 :: addr) \<noteq> 0
              \<and> mem ?s0 (magic_at (0x90000010 - HEADER_SIZE)) \<noteq> MEMORY_MAGIC"
    by (simp add: ai_memory_init_def MEMORY_MAGIC_def zero_memory_def)
  have p1: "ai_memory_free 0x90000010 ?s0
              = Some (Free_Invalid_Magic, ?s0\<lparr> leak_count := 1 \<rparr>)"
    using free_invalid_magic_only_counts_leak [of "0x90000010" ?s0] h1
    by (simp add: ai_memory_init_def)
  obtain s2 where f: "ai_memory_free 0x90000010 ?s1 = Some (Freed, s2)"
    and l: "leak_count s2 = 0"
    by (simp add: pool_defs)
  have p2: "ai_memory_free 0x90000010 s2 = Some (Free_Invalid_Magic, s2\<lparr> leak_count := 1 \<rparr>)"
    using free_invalid_magic_only_counts_leak [of "0x90000010" ?s1 s2] f l by simp
  from p1 f p2 show ?thesis by blast
qed

subsection \<open>An allocation followed by its free\<close>

lemma alloc_free_pair:
  assumes "ai_memory_alloc sz t p = (q, p1)" "q \<noteq> 0"
  shows "\<exists>p2. ai_memory_free q p1 = Some (Freed, p2)
           \<and> allocated_blocks p2 = allocated_blocks p
           \<and> allocated_size p2 = allocated_size p
           \<and> pool_start p2 = pool_start p
           \<and> pool_size p2 = pool_size p"
proof -
  let ?size1 = "(sz + MEMORY_ALIGN - 1) AND NOT (MEMORY_ALIGN - 1)"
  let ?block = "pool_start p + allocated_size p"
  from assms have ok: "sz \<noteq> 0" "\<not> pool_size p < allocated_size p + (HEADER_SIZE + ?size1)"
    by (auto simp: ai_memory_alloc_def Let_def split: if_splits)
  from assms ok have q: "q = data_of ?block"
    by (simp add: ai_memory_alloc_def Let_def)
  from assms ok have hd: "allocated_blocks p1 = ?block"
    and mg: "mem p1 (magic_at ?block) = MEMORY_MAGIC"
    and sz: "mem p1 (size_at ?block) = ?size1"
    and nx: "mem p1 (next_at ?block) = allocated_blocks p"
    and al: "allocated_size p1 = allocated_size p + (HEADER_SIZE + ?size1)"
    and ps: "pool_start p1 = pool_start p" "pool_size p1 = pool_size p"
    by (auto simp: ai_memory_alloc_def Let_def magic_at_def size_at_def timestamp_at_def next_at_def)
  have b: "q - HEADER_SIZE = ?block"
    by (simp add: q data_of_def)
  show ?thesis
    using assms(2) hd mg sz nx al ps
    by (simp add: ai_memory_free_def Let_def b free_finish_def magic_at_def size_at_def)
qed

lemma aligned_le:
  fixes sz :: u32
  assumes "sz \<le> 0x100000"
  shows "unat ((sz + 8 - 1) AND NOT (8 - 1)) \<le> unat sz + 7"
proof -
  have "(sz + 8 - 1) AND NOT (8 - 1) \<le> sz + 8 - 1" by (rule word_and_le2)
  then have "unat ((sz + 8 - 1) AND NOT (8 - 1)) \<le> unat (sz + 8 - 1)"
    by (simp only: word_le_nat_alt)
  moreover have "unat sz \<le> 0x100000" using assms by (simp add: word_le_nat_alt)
  then have "unat (sz + 8 - 1) = unat sz + 7"
    by (simp add: unat_word_ariths)
  ultimately show ?thesis by simp
qed

lemma data_nonnull:
  fixes s a sz :: u32
  assumes "unat s + 2621440 < 2 ^ 32" "a \<le> 2621440" "sz \<le> 0x100000"
    "\<not> 2621440 < a + (16 + ((sz + 8 - 1) AND NOT (8 - 1)))"
  shows "s + a + 16 \<noteq> 0"
proof -
  let ?sz1 = "(sz + 8 - 1) AND NOT (8 - 1)"
  have s1: "unat ?sz1 \<le> unat sz + 7" by (rule aligned_le [OF assms(3)])
  have z: "unat sz \<le> 0x100000" using assms(3) by (simp add: word_le_nat_alt)
  have a: "unat a \<le> 2621440" using assms(2) by (simp add: word_le_nat_alt)
  have t: "unat (16 + ?sz1) = 16 + unat ?sz1"
    using s1 z by (simp add: unat_word_ariths)
  have u: "unat (a + (16 + ?sz1)) = unat a + 16 + unat ?sz1"
    using s1 z a t by (simp add: unat_word_ariths)
  have "unat (a + (16 + ?sz1)) \<le> 2621440"
    using assms(4) by (simp add: word_less_nat_alt)
  with u have le: "unat a + 16 \<le> 2621440" by simp
  have "unat (s + a + 16) = unat s + unat a + 16"
    using le assms(1) by (simp add: unat_word_ariths)
  then have "unat (s + a + 16) \<noteq> 0" by simp
  then show ?thesis by (simp add: unat_0_iff del: unsigned_eq_0_iff)
qed

lemma same_pool_refl: "same_pool p p"
  by (simp add: same_pool_def)

lemma same_pool_trans: "same_pool p p' \<Longrightarrow> same_pool p' p'' \<Longrightarrow> same_pool p p''"
  by (simp add: same_pool_def)

lemma pool_ok_same: "pool_ok p \<Longrightarrow> same_pool p p' \<Longrightarrow> pool_ok p'"
  by (auto simp: same_pool_def pool_ok_def)

lemma alloc_null_unchanged:
  assumes "pool_ok p" "sz \<le> 0x100000" "ai_memory_alloc sz t p = (0, p1)"
  shows "p1 = p"
proof (rule ccontr)
  assume ne: "p1 \<noteq> p"
  let ?size1 = "(sz + 8 - 1) AND NOT (8 - 1)"
  from assms(3) ne have chk: "\<not> 2621440 < allocated_size p + (16 + ?size1)"
    and z: "pool_start p + allocated_size p + 16 = 0"
    using assms(1)
    by (auto simp: ai_memory_alloc_def Let_def pool_ok_def data_of_def HEADER_SIZE_def
        MEMORY_ALIGN_def AI_MEMORY_POOL_SIZE_def NPU_MAX_MEMORY_BYTES_def split: if_splits)
  from assms(1) have "unat (pool_start p) + 2621440 < 2 ^ 32" "allocated_size p \<le> 2621440"
    by (auto simp: pool_ok_def AI_MEMORY_POOL_SIZE_def NPU_MAX_MEMORY_BYTES_def)
  from data_nonnull [OF this assms(2) chk] z show False by simp
qed

lemma alloc_free_cases:
  assumes "pool_ok p" "sz \<le> 0x100000" "ai_memory_alloc sz t p = (q, p1)"
  shows "(q = 0 \<and> p1 = p)
         \<or> (q \<noteq> 0 \<and> (\<exists>p2. ai_memory_free q p1 = Some (Freed, p2) \<and> same_pool p p2))"
proof (cases "q = 0")
  case True
  with assms alloc_null_unchanged show ?thesis by blast
next
  case False
  from alloc_free_pair [OF assms(3) False] False show ?thesis
    by (auto simp: same_pool_def)
qed

lemma alloc_keeps_pool_ok:
  assumes "pool_ok p" "ai_memory_alloc sz t p = (q, p1)"
  shows "pool_ok p1"
  using assms
  by (auto simp: ai_memory_alloc_def pool_ok_def Let_def not_less split: if_splits)

lemma alloc_head:
  assumes "ai_memory_alloc sz t p = (q, p1)" "q \<noteq> 0"
  shows "allocated_blocks p1 = q - HEADER_SIZE"
  using assms
  by (auto simp: ai_memory_alloc_def Let_def data_of_def split: if_splits)

lemma free_head_returns:
  assumes "ptr \<noteq> 0" "allocated_blocks p = ptr - HEADER_SIZE"
  shows "\<exists>r p'. ai_memory_free ptr p = Some (r, p')"
  using assms by (simp add: ai_memory_free_def Let_def)

subsection \<open>Concrete runs\<close>

text \<open>
  C1 (the code breaks it): with the pool at 0x90000000, allocate 8 bytes twice, free the
  first block, allocate 8 bytes again. The second block was never freed, yet the third
  allocate returns its payload pointer 0x90000028 once more: \<open>ai_memory_alloc\<close> places
  the new block at \<open>pool_start + allocated_size\<close>, and the free of the first block
  lowered \<open>allocated_size\<close> to 24, the offset of the live second block. The new header is
  written over the live one (its \<open>next\<close> field now points at itself).
\<close>

theorem alloc_after_interior_free_returns_live_payload:
  "run_calls [Alloc 8 10, Alloc 8 20, Free 0, Alloc 8 30]
       ([], ai_memory_init 0x90000000 zero_memory) \<noteq> None
   \<and> fst (the (run_calls [Alloc 8 10, Alloc 8 20, Free 0, Alloc 8 30]
                  ([], ai_memory_init 0x90000000 zero_memory)))
       = [0x90000010, 0x90000028, 0x90000028]
   \<and> allocated_size (snd (the (run_calls [Alloc 8 10, Alloc 8 20, Free 0]
                  ([], ai_memory_init 0x90000000 zero_memory)))) = 24
   \<and> allocated_blocks (snd (the (run_calls [Alloc 8 10, Alloc 8 20, Free 0]
                  ([], ai_memory_init 0x90000000 zero_memory)))) = 0x90000018
   \<and> mem (snd (the (run_calls [Alloc 8 10, Alloc 8 20, Free 0]
                  ([], ai_memory_init 0x90000000 zero_memory)))) (magic_at 0x90000018)
       = MEMORY_MAGIC
   \<and> mem (snd (the (run_calls [Alloc 8 10, Alloc 8 20, Free 0, Alloc 8 30]
                  ([], ai_memory_init 0x90000000 zero_memory)))) (next_at 0x90000018)
       = 0x90000018"
  by (simp add: pool_defs free_walk.simps)

text \<open>
  C2 (the code breaks it): the capacity test is computed in 32-bit arithmetic and wraps.
  With 24 bytes allocated, a request of 0xFFFFFFE8 bytes gives
  \<open>total_size = 0xFFFFFFF8\<close> and \<open>allocated_size + total_size = 16\<close>, which is not
  above the capacity 2621440, so the call succeeds (it returns 0x90000028) although
  24 + 16 + 4294967272 exceeds the capacity, and it sets \<open>allocated_size\<close> to 16. Freeing
  the first block then subtracts 24 and leaves \<open>allocated_size = 4294967288\<close>, above
  the capacity.
\<close>

theorem alloc_capacity_check_wraps:
  "run_calls [Alloc 8 10, Alloc 0xFFFFFFE8 20, Free 0]
       ([], ai_memory_init 0x90000000 zero_memory) \<noteq> None
   \<and> allocated_size (snd (the (run_calls [Alloc 8 10]
                  ([], ai_memory_init 0x90000000 zero_memory)))) = 24
   \<and> unat (pool_size (ai_memory_init 0x90000000 zero_memory))
       < 24 + unat HEADER_SIZE + unat (0xFFFFFFE8 :: u32)
   \<and> fst (the (run_calls [Alloc 8 10, Alloc 0xFFFFFFE8 20]
                  ([], ai_memory_init 0x90000000 zero_memory)))
       = [0x90000010, 0x90000028]
   \<and> allocated_size (snd (the (run_calls [Alloc 8 10, Alloc 0xFFFFFFE8 20]
                  ([], ai_memory_init 0x90000000 zero_memory)))) = 16
   \<and> allocated_size (snd (the (run_calls [Alloc 8 10, Alloc 0xFFFFFFE8 20, Free 0]
                  ([], ai_memory_init 0x90000000 zero_memory)))) = 0xFFFFFFF8
   \<and> pool_size (snd (the (run_calls [Alloc 8 10, Alloc 0xFFFFFFE8 20, Free 0]
                  ([], ai_memory_init 0x90000000 zero_memory)))) = 2621440"
  by (simp add: pool_defs free_walk.simps)

text \<open>
  C3 (the code breaks it): three allocate calls and the three matching frees, each
  returned pointer freed once. The third allocate returns the pointer of the live second
  block (see C1), the free of the second pointer zeroes the shared tag, and the free of
  the third pointer is then rejected as an invalid tag. The run ends with
  \<open>allocated_size = 24\<close> instead of the initial 0 and with
  \<open>allocation_count - free_count = 3 - 2 = 1\<close>.
\<close>

theorem balance_broken_after_interior_free:
  "run_calls [Alloc 8 10, Alloc 8 20, Free 0, Alloc 8 30, Free 1, Free 2]
       ([], ai_memory_init 0x90000000 zero_memory) \<noteq> None
   \<and> allocated_size (ai_memory_init 0x90000000 zero_memory) = 0
   \<and> fst (the (run_calls [Alloc 8 10, Alloc 8 20, Free 0, Alloc 8 30, Free 1, Free 2]
                  ([], ai_memory_init 0x90000000 zero_memory)))
       = [0x90000010, 0x90000028, 0x90000028]
   \<and> allocated_size (snd (the (run_calls
         [Alloc 8 10, Alloc 8 20, Free 0, Alloc 8 30, Free 1, Free 2]
         ([], ai_memory_init 0x90000000 zero_memory)))) = 24
   \<and> allocation_count (snd (the (run_calls
         [Alloc 8 10, Alloc 8 20, Free 0, Alloc 8 30, Free 1, Free 2]
         ([], ai_memory_init 0x90000000 zero_memory)))) = 3
   \<and> free_count (snd (the (run_calls
         [Alloc 8 10, Alloc 8 20, Free 0, Alloc 8 30, Free 1, Free 2]
         ([], ai_memory_init 0x90000000 zero_memory)))) = 2
   \<and> leak_count (snd (the (run_calls
         [Alloc 8 10, Alloc 8 20, Free 0, Alloc 8 30, Free 1, Free 2]
         ([], ai_memory_init 0x90000000 zero_memory)))) = 1"
  by (simp add: pool_defs free_walk.simps)

subsection \<open>Leak check\<close>

lemma leak_walk_block_list:
  "block_list m p bs \<Longrightarrow>
   leak_walk m t p n = Some (n + of_nat (length (filter (stale m t) bs)))"
proof (induction bs arbitrary: p n)
  case Nil
  then show ?case by (subst leak_walk.simps) simp
next
  case (Cons b bs)
  from Cons.prems have p: "p = b" "b \<noteq> 0" and tl: "block_list m (m (next_at b)) bs"
    by auto
  have st: "(30000 < t - m (timestamp_at b)) = stale m t b"
    by (simp add: stale_def)
  show ?case
    unfolding p
    by (subst leak_walk.simps) (simp add: Cons.IH [OF tl] p(2) st)
qed

lemma block_list_unique:
  "block_list m p as \<Longrightarrow> block_list m p bs \<Longrightarrow> as = bs"
proof (induction as arbitrary: p bs)
  case Nil
  then show ?case by (cases bs) auto
next
  case (Cons a as)
  then show ?case by (cases bs) auto
qed

lemma block_list_suffix:
  "block_list m p (xs @ ys) \<Longrightarrow> \<exists>q. block_list m q ys"
  by (induction xs arbitrary: p) auto

lemma block_list_nonnull: "block_list m p bs \<Longrightarrow> 0 \<notin> set bs"
  by (induction bs arbitrary: p) auto

lemma block_list_distinct: "block_list m p bs \<Longrightarrow> distinct bs"
proof (induction bs arbitrary: p)
  case Nil
  then show ?case by simp
next
  case (Cons b bs)
  from Cons.prems have tl: "block_list m (m (next_at b)) bs" by auto
  have "b \<notin> set bs"
  proof
    assume "b \<in> set bs"
    then obtain xs ys where bs: "bs = xs @ b # ys"
      by (auto dest: split_list)
    with tl obtain q where "block_list m q (b # ys)"
      using block_list_suffix by blast
    then have "block_list m (m (next_at b)) ys" by auto
    with tl have "bs = ys" by (rule block_list_unique)
    with bs show False by simp
  qed
  with Cons.IH [OF tl] show ?case by simp
qed

lemma block_list_length:
  assumes "block_list m p bs"
  shows "length bs < 2 ^ 32"
proof -
  have d: "distinct bs" and z: "0 \<notin> set bs"
    using assms block_list_distinct block_list_nonnull by blast+
  have "set bs \<subseteq> (UNIV :: addr set) - {0}"
    using z by auto
  then have "card (set bs) \<le> card ((UNIV :: addr set) - {0})"
    by (intro card_mono) auto
  also have "\<dots> = 2 ^ 32 - 1"
    by (simp add: card_Diff_singleton card_word)
  finally show ?thesis
    using d by (simp add: distinct_card)
qed

text \<open>
  On a list that ends in NULL the walk of \<open>ai_memory_check_leaks\<close> returns the number of
  blocks whose age \<open>current_time - timestamp\<close> is above 30000 ms, and the call changes
  only \<open>leak_count\<close>.
\<close>

lemma check_leaks_on_block_list:
  assumes "block_list (mem s) (allocated_blocks s) bs"
  shows "\<exists>n. ai_memory_check_leaks t s = Some (n, s\<lparr> leak_count := leak_count s + n \<rparr>)
           \<and> unat n = length (filter (stale (mem s) t) bs)"
proof -
  let ?k = "length (filter (stale (mem s) t) bs)"
  have "?k \<le> length bs" by simp
  with block_list_length [OF assms] have k: "?k < 2 ^ 32" by linarith
  have "leak_walk (mem s) t (allocated_blocks s) 0 = Some (of_nat ?k)"
    using leak_walk_block_list [OF assms, of t 0] by simp
  moreover have "unat (of_nat ?k :: u32) = ?k"
    using k by (simp add: unat_of_nat)
  ultimately show ?thesis
    by (simp add: ai_memory_check_leaks_def)
qed

text \<open>A block whose \<open>next\<close> field points at the block itself: the walk never leaves it.\<close>

lemma leak_walk_self_linked:
  assumes "b \<noteq> 0" "m (next_at b) = b"
  shows "leak_walk m t b n = None"
proof (rule ccontr)
  assume "leak_walk m t b n \<noteq> None"
  then obtain y where y: "leak_walk m t b n = Some y" by auto
  have "\<not> (m = m \<and> b = b)"
  proof (rule leak_walk.raw_induct
           [where P = "\<lambda>m' t' current k r. \<not> (m' = m \<and> current = b)", OF _ y])
    fix walk m' t' current k r
    assume IH: "\<And>a t c k y. walk a t c k = Some y \<Longrightarrow> \<not> (a = m \<and> c = b)"
      and step: "(if current \<noteq> 0
                  then walk m' t' (m' (next_at current))
                         (if 30000 < t' - m' (timestamp_at current) then k + 1 else k)
                  else Some k) = Some r"
    show "\<not> (m' = m \<and> current = b)"
    proof
      assume "m' = m \<and> current = b"
      with step assms
      have "walk m t' b (if 30000 < t' - m (timestamp_at b) then k + 1 else k) = Some r"
        by simp
      from IH [OF this] show False by simp
    qed
  qed
  then show False by simp
qed

text \<open>
  C10 (the code breaks it): after the calls of C1, allocate 8 bytes twice, free the first
  block and allocate 8 bytes again, the third allocate has returned the payload of the
  live second block (0x90000028) and has linked that block's header to itself. A call of
  \<open>ai_memory_check_leaks\<close> in that state, at any time \<open>current_time\<close>, never returns: it
  reports no count at all, so the live block, allocated at tick 20 and never freed, is
  not reported however old it is.
\<close>

theorem check_leaks_never_returns_after_interior_free:
  "run_calls [Alloc 8 10, Alloc 8 20, Free 0, Alloc 8 30]
       ([], ai_memory_init 0x90000000 zero_memory) \<noteq> None
   \<and> fst (the (run_calls [Alloc 8 10, Alloc 8 20, Free 0, Alloc 8 30]
                  ([], ai_memory_init 0x90000000 zero_memory)))
       = [0x90000010, 0x90000028, 0x90000028]
   \<and> ai_memory_check_leaks current_time
        (snd (the (run_calls [Alloc 8 10, Alloc 8 20, Free 0, Alloc 8 30]
                     ([], ai_memory_init 0x90000000 zero_memory)))) = None"
proof -
  define s where "s = snd (the (run_calls [Alloc 8 10, Alloc 8 20, Free 0, Alloc 8 30]
                        ([], ai_memory_init 0x90000000 zero_memory)))"
  have run: "run_calls [Alloc 8 10, Alloc 8 20, Free 0, Alloc 8 30]
               ([], ai_memory_init 0x90000000 zero_memory) \<noteq> None"
    and ptrs: "fst (the (run_calls [Alloc 8 10, Alloc 8 20, Free 0, Alloc 8 30]
                  ([], ai_memory_init 0x90000000 zero_memory)))
       = [0x90000010, 0x90000028, 0x90000028]"
    by (simp_all add: pool_defs free_walk.simps)
  have hd: "allocated_blocks s = 0x90000018"
    and nx: "mem s (next_at 0x90000018) = 0x90000018"
    unfolding s_def by (simp_all add: pool_defs free_walk.simps)
  have "leak_walk (mem s) current_time 0x90000018 0 = None"
    using nx by (intro leak_walk_self_linked) simp_all
  then have "ai_memory_check_leaks current_time s = None"
    by (simp add: ai_memory_check_leaks_def hd)
  with run ptrs show ?thesis unfolding s_def by blast
qed

section \<open>Properties of the image preprocessing\<close>

lemma four_avg:
  fixes r :: u32
  assumes "r < 64"
  shows "(r + r + r + r) div 4 = r"
proof -
  have u: "unat r < 64" using assms by (simp add: word_less_nat_alt)
  have "unat (r + r + r + r) = unat r + unat r + unat r + unat r"
    using u by (simp add: unat_word_ariths)
  then have "unat ((r + r + r + r) div 4) = unat r"
    by (simp add: unat_div)
  then show ?thesis by (simp add: word_unat_eq_iff)
qed

lemma red_bound: "drop_bit 11 (ucast (c :: u16) :: u32) < 64"
proof -
  have "unat c < 2 ^ 16" using unsigned_less [of c] by simp
  moreover have "unat (ucast c :: u32) = take_bit 32 (unat c)"
    by (simp add: unsigned_ucast_eq)
  ultimately have "unat (drop_bit 11 (ucast c :: u32)) < 64"
    by (simp add: unat_div drop_bit_eq_div take_bit_eq_mod)
  then show ?thesis by (simp add: word_less_nat_alt)
qed

lemma green_bound: "(drop_bit 5 (ucast (c :: u16) :: u32) AND 0x3F) < 64"
proof -
  have "(drop_bit 5 (ucast c :: u32) AND 0x3F) \<le> 0x3F" by (rule word_and_le1)
  then show ?thesis by (simp add: word_le_nat_alt word_less_nat_alt)
qed

lemma blue_bound: "((ucast (c :: u16) :: u32) AND 0x1F) < 64"
proof -
  have "((ucast c :: u32) AND 0x1F) \<le> 0x1F" by (rule word_and_le1)
  then show ?thesis by (simp add: word_le_nat_alt word_less_nat_alt)
qed

lemma mask6: "(0x3F :: u32) = mask 6" by (simp add: mask_eq_exp_minus_1)
lemma mask5: "(0x1F :: u32) = mask 5" by (simp add: mask_eq_exp_minus_1)

lemma repack_rgb565:
  "(ucast (push_bit 11 (drop_bit 11 (ucast c :: u32))
           OR push_bit 5 (drop_bit 5 (ucast c) AND 0x3F)
           OR (ucast c AND 0x1F)) :: u16) = c"
  unfolding mask6 mask5
proof (rule bit_word_eqI)
  fix n
  assume "n < LENGTH(16)"
  then show "bit (ucast (push_bit 11 (drop_bit 11 (ucast c :: u32))
                     OR push_bit 5 (drop_bit 5 (ucast c) AND mask 6)
                     OR (ucast c AND mask 5)) :: u16) n = bit c n"
    by (cases "11 \<le> n") (auto simp add: bit_simps not_less not_le)
qed

lemma downsample_uniform: "downsample_pixel c c c c = c"
  unfolding downsample_pixel_def Let_def
    four_avg [OF red_bound] four_avg [OF green_bound] four_avg [OF blue_bound]
  by (rule repack_rgb565)

lemma preprocess_pixel_uniform:
  assumes "y < OCR_INPUT_HEIGHT" "x < OCR_INPUT_WIDTH"
  shows "preprocess_pixel (replicate (CAMERA_WIDTH * CAMERA_HEIGHT + k) c) y x = c"
proof -
  have y: "y < 240" and x: "x < 320"
    using assms by (simp_all add: OCR_INPUT_HEIGHT_def OCR_INPUT_WIDTH_def)
  have "(y * 2 + 1) * 640 + x * 2 + 1 < 640 * 480 + k"
    using x y by (simp add: algebra_simps)
  then show ?thesis
    using x y
    by (simp add: preprocess_pixel_def Let_def CAMERA_WIDTH_def CAMERA_HEIGHT_def
        downsample_uniform)
qed

lemma concat_rows_uniform:
  "concat (map (\<lambda>y. replicate w c) [0..<h]) = replicate (h * w) c"
  by (induction h) (simp_all add: replicate_add [symmetric] add.commute)


text \<open>
  For a frame whose buffer holds one colour \<open>c\<close> in all of its pixels, the 640 x 480
  pixels the code reads and any number \<open>k\<close> of further ones, \<open>ocr_preprocess_image\<close>
  returns 0 and every one of the 320 x 240 pixels it writes is \<open>c\<close>: the per-channel
  mean of four equal pixels, packed again as RGB565, is that pixel.
\<close>

lemma preprocess_uniform_full_frame:
  "ocr_preprocess_image
     (Some \<lparr> frame_data = replicate (CAMERA_WIDTH * CAMERA_HEIGHT + k) c,
             frame_size = sz, frame_timestamp = ts, frame_ready = rdy \<rparr>) True
   = Some (0, replicate (OCR_INPUT_HEIGHT * OCR_INPUT_WIDTH) c)"
proof -
  let ?src = "replicate (CAMERA_WIDTH * CAMERA_HEIGHT + k) c"
  have row: "map (\<lambda>x. preprocess_pixel ?src y x) [0..<OCR_INPUT_WIDTH]
               = replicate OCR_INPUT_WIDTH c" if "y < OCR_INPUT_HEIGHT" for y
    using that by (auto simp: list_eq_iff_nth_eq preprocess_pixel_uniform)
  have "map (\<lambda>y. map (\<lambda>x. preprocess_pixel ?src y x) [0..<OCR_INPUT_WIDTH]) [0..<OCR_INPUT_HEIGHT]
          = map (\<lambda>y. replicate OCR_INPUT_WIDTH c) [0..<OCR_INPUT_HEIGHT]"
    by (rule map_cong) (simp_all add: row)
  then have rows: "concat (map (\<lambda>y. map (\<lambda>x. preprocess_pixel ?src y x) [0..<OCR_INPUT_WIDTH])
                              [0..<OCR_INPUT_HEIGHT])
                     = replicate (OCR_INPUT_HEIGHT * OCR_INPUT_WIDTH) c"
    by (simp only: concat_rows_uniform)
  show ?thesis
    unfolding ocr_preprocess_image_def by (simp add: rows)
qed

text \<open>
  C9 (the code breaks it): \<open>ai_validate_model_performance\<close> and \<open>ai_benchmark\<close> pass to
  \<open>ocr_process_frame\<close> a uniform image of 320 x 240 pixels, every pixel 0x8080.
  \<open>ocr_preprocess_image\<close> never looks at the size of the frame: it reads the source
  pixels up to index \<open>(2 * 239 + 1) * 640 + 2 * 319 + 1 = 307199\<close> of a buffer that holds
  76800 of them, so its reads leave the image from output row 60 on. The call has no
  defined result, and neither has the call of \<open>ocr_process_frame\<close> that makes it: no
  output image of that colour is produced.
\<close>

theorem preprocess_reads_past_validation_frame:
  "length (frame_data (validation_test_frame tick)) = 76800
   \<and> set (frame_data (validation_test_frame tick)) = {0x8080}
   \<and> 2 * 239 * CAMERA_WIDTH + 2 * 319 + CAMERA_WIDTH + 1 = 307199
   \<and> ocr_preprocess_image (Some (validation_test_frame tick)) True = None
   \<and> ocr_process_frame env tick (Some (validation_test_frame tick)) result0
        (initial_world 0x90000000) = None"
proof -
  have len: "length (frame_data (validation_test_frame tick)) = 76800"
    and uni: "set (frame_data (validation_test_frame tick)) = {0x8080}"
    by (simp_all add: validation_test_frame_def OCR_INPUT_WIDTH_def OCR_INPUT_HEIGHT_def)
  have idx: "2 * 239 * CAMERA_WIDTH + 2 * 319 + CAMERA_WIDTH + 1 = 307199"
    by (simp add: CAMERA_WIDTH_def)
  have pre: "ocr_preprocess_image (Some (validation_test_frame tick)) True = None"
    by (simp add: ocr_preprocess_image_def len CAMERA_WIDTH_def CAMERA_HEIGHT_def)
  have rdy: "frame_ready (validation_test_frame tick) \<noteq> 0"
    by (simp add: validation_test_frame_def)
  obtain q p1 where al: "ai_memory_alloc (of_nat (OCR_INPUT_WIDTH * OCR_INPUT_HEIGHT * 2)) tick
                           (pool (initial_world 0x90000000)) = (q, p1)"
    and nonnull: "q \<noteq> 0"
    by (simp add: pool_defs initial_world_def OCR_INPUT_WIDTH_def OCR_INPUT_HEIGHT_def)
  have "ocr_process_frame env tick (Some (validation_test_frame tick)) result0
          (initial_world 0x90000000) = None"
    using rdy al nonnull pre
    by (simp add: ocr_process_frame_def Let_def)
  with len uni idx pre show ?thesis by blast
qed

section \<open>Properties of the inference task\<close>

subsection \<open>The pipeline returns\<close>

lemma detect_text_returns:
  assumes "pool_ok p"
  shows "\<exists>n boxes p'. ocr_detect_text env tick mb p = Some (n, boxes, p') \<and> same_pool p p'
           \<and> (\<forall>b \<in> set boxes. bbox_bytes b \<le> 0x100000)"
proof -
  obtain q p1 where a: "ai_memory_alloc 1024 tick p = (q, p1)"
    by (cases "ai_memory_alloc 1024 tick p") auto
  from alloc_free_cases [OF assms _ a]
  consider "q = 0" "p1 = p"
    | p2 where "q \<noteq> 0" "ai_memory_free q p1 = Some (Freed, p2)" "same_pool p p2"
    by auto
  then show ?thesis
  proof cases
    case 1
    then show ?thesis
      by (simp add: ocr_detect_text_def a same_pool_refl)
  next
    case 2
    then show ?thesis
      by (simp add: ocr_detect_text_def a bbox_bytes_def OCR_INPUT_WIDTH_def OCR_INPUT_HEIGHT_def)
  qed
qed

lemma recognize_text_returns:
  assumes "pool_ok p" "bbox_bytes bbox \<le> 0x100000"
  shows "\<exists>r t c p'. ocr_recognize_text env tick i bbox p = Some (r, t, c, p') \<and> same_pool p p'"
proof -
  obtain q p1 where a: "ai_memory_alloc (bbox_bytes bbox) tick p = (q, p1)"
    by (cases "ai_memory_alloc (bbox_bytes bbox) tick p") auto
  from alloc_free_cases [OF assms a]
  consider "q = 0" "p1 = p"
    | p2 where "q \<noteq> 0" "ai_memory_free q p1 = Some (Freed, p2)" "same_pool p p2"
    by auto
  then show ?thesis
  proof cases
    case 1
    then show ?thesis
      using a by (simp add: ocr_recognize_text_def bbox_bytes_def same_pool_refl)
  next
    case 2
    show ?thesis
    proof (cases "recognize_ok env i")
      case True
      with 2 a have "ocr_recognize_text env tick i bbox p
                       = Some (0, take 63 ''Sample Text'', f32_round 0.92, p2)"
        by (simp add: ocr_recognize_text_def bbox_bytes_def)
      with 2(3) show ?thesis by blast
    next
      case False
      with 2 a have "ocr_recognize_text env tick i bbox p
                       = Some (AI_ERROR_NPU_ERROR, [], 0, p2)"
        by (simp add: ocr_recognize_text_def bbox_bytes_def)
      with 2(3) show ?thesis by blast
    qed
  qed
qed

lemma recognize_regions_same_pool:
  assumes "ocr_recognize_regions env tick i boxes acc p = Some (acc', p')"
    "pool_ok p" "\<forall>b \<in> set boxes. bbox_bytes b \<le> 0x100000"
  shows "same_pool p p'"
  using assms
proof (induction boxes arbitrary: i acc p)
  case Nil
  then show ?case by (simp add: same_pool_refl)
next
  case (Cons b bs)
  from Cons.prems(3) have small: "bbox_bytes b \<le> 0x100000" by simp
  from recognize_text_returns [OF Cons.prems(2) small, of env tick i]
  obtain r t c p1 where rec: "ocr_recognize_text env tick i b p = Some (r, t, c, p1)"
    and sp: "same_pool p p1" by blast
  from Cons.prems(1) rec obtain acc1 where
    rest: "ocr_recognize_regions env tick (Suc i) bs acc1 p1 = Some (acc', p')"
    by (auto split: option.splits)
  have "same_pool p1 p'"
    using Cons.IH [OF rest pool_ok_same [OF Cons.prems(2) sp]] Cons.prems(3) by simp
  with sp show ?case by (rule same_pool_trans)
qed

lemma preprocess_returns:
  assumes "CAMERA_WIDTH * CAMERA_HEIGHT \<le> length (frame_data f)"
  shows "\<exists>image. ocr_preprocess_image (Some f) True = Some (0, image)"
  using assms by (simp add: ocr_preprocess_image_def)

lemma count_failed:
  "failed_inferences (stats_of (with_stats (ocr_count_inference 0) w)) = failed_inferences (stats_of w) + 1"
  "total_inferences (stats_of (with_stats (ocr_count_inference 0) w)) = total_inferences (stats_of w) + 1"
  "successful_inferences (stats_of (with_stats (ocr_count_inference 0) w)) = successful_inferences (stats_of w)"
  by (simp_all add: stats_of_def with_stats_def ocr_count_inference_def Let_def)

lemma process_frame_zero_regions:
  assumes ready: "frame_ready f \<noteq> 0"
    and sized: "CAMERA_WIDTH * CAMERA_HEIGHT \<le> length (frame_data f)"
    and ok: "pool_ok (pool w)"
    and pre: "ai_memory_alloc (of_nat (OCR_INPUT_WIDTH * OCR_INPUT_HEIGHT * 2)) tick (pool w)
                = (preprocessed_image, p1)"
    and nonnull: "preprocessed_image \<noteq> 0"
    and det: "ocr_detect_text env tick 16 p1 = Some (detected_boxes, text_boxes, p2)"
    and found: "0 \<le> detected_boxes"
    and none: "ocr_recognize_regions env tick 0 (take (nat (min detected_boxes 16)) text_boxes)
                 ([], 0, 0) p2 = Some ((combined_text, total_confidence, 0), p3)"
  shows "\<exists>r w'. ocr_process_frame env tick (Some f) result0 w = Some (0, r, w')
           \<and> result_text r = [] \<and> confidence r = 0
           \<and> failed_inferences (stats_of w') = failed_inferences (stats_of w) + 1
           \<and> total_inferences (stats_of w') = total_inferences (stats_of w) + 1
           \<and> successful_inferences (stats_of w') = successful_inferences (stats_of w)"
proof -
  have ok1: "pool_ok p1"
    by (rule alloc_keeps_pool_ok [OF ok pre])
  from detect_text_returns [OF ok1, of env tick 16] det
  have sp12: "same_pool p1 p2" and small: "\<forall>b \<in> set text_boxes. bbox_bytes b \<le> 0x100000"
    by auto
  have ok2: "pool_ok p2"
    by (rule pool_ok_same [OF ok1 sp12])
  have "\<forall>b \<in> set (take (nat (min detected_boxes 16)) text_boxes). bbox_bytes b \<le> 0x100000"
    using small by (auto dest: in_set_takeD)
  from recognize_regions_same_pool [OF none ok2 this]
  have sp23: "same_pool p2 p3" .
  have "allocated_blocks p3 = preprocessed_image - HEADER_SIZE"
    using sp12 sp23 alloc_head [OF pre nonnull] by (simp add: same_pool_def)
  from free_head_returns [OF nonnull this]
  obtain fr p4 where fr: "ai_memory_free preprocessed_image p3 = Some (fr, p4)"
    by blast
  from preprocess_returns [OF sized]
  obtain image where img: "ocr_preprocess_image (Some f) True = Some (0, image)"
    by blast
  let ?r = "ocr_postprocess env (combined_text, total_confidence, 0)
              (cleared_result\<lparr> timestamp := tick, bbox_count := word_of_int detected_boxes \<rparr>)"
  have run: "ocr_process_frame env tick (Some f) result0 w
               = Some (0, ?r, with_stats (ocr_count_inference 0) (w\<lparr> pool := p4 \<rparr>))"
    using ready pre nonnull img det found none fr
    by (simp add: ocr_process_frame_def Let_def)
  have r: "result_text ?r = []" "confidence ?r = 0"
    by (simp_all add: ocr_postprocess_def cleared_result_def)
  have st: "stats_of (w\<lparr> pool := p4 \<rparr>) = stats_of w"
    by (simp add: stats_of_def)
  show ?thesis
    using run r count_failed [of "w\<lparr> pool := p4 \<rparr>"] unfolding st by blast
qed

lemma handle_success_keeps_failed:
  "\<exists>w'. ai_task_handle_result env tick 0 r t w = Some w'
         \<and> failed_inferences (stats_of w') = failed_inferences (stats_of w)"
  by (simp add: ai_task_handle_result_def Let_def with_stats_def stats_of_def
      ai_stats_update_quality_def ai_stats_update_timing_def system_log_error_def)

text \<open>
  C5: take a ready frame of full size and a pool in good shape, and suppose the run of
  \<open>ocr_process_frame\<close> gets its preprocessing buffer, detection does not fail, and the
  recognition loop ends with \<open>recognized_regions = 0\<close>. Then the call returns 0, not an
  error code; the result has an empty text and confidence 0; and \<open>failed_inferences\<close> is
  one higher (\<open>total_inferences\<close> too, \<open>successful_inferences\<close> is unchanged). The loop
  iteration of \<open>ai_task_entry\<close> that makes the call ends with \<open>failed_inferences\<close> one
  higher as well: its success branch does not touch that counter.
\<close>

theorem zero_regions_is_counted_success:
  assumes ready: "frame_ready f \<noteq> 0"
    and sized: "CAMERA_WIDTH * CAMERA_HEIGHT \<le> length (frame_data f)"
    and ok: "pool_ok (pool w)"
    and pre: "ai_memory_alloc (of_nat (OCR_INPUT_WIDTH * OCR_INPUT_HEIGHT * 2)) tick (pool w)
                = (preprocessed_image, p1)"
    and nonnull: "preprocessed_image \<noteq> 0"
    and det: "ocr_detect_text env tick 16 p1 = Some (detected_boxes, text_boxes, p2)"
    and found: "0 \<le> detected_boxes"
    and none: "ocr_recognize_regions env tick 0 (take (nat (min detected_boxes 16)) text_boxes)
                 ([], 0, 0) p2 = Some ((combined_text, total_confidence, 0), p3)"
  shows "(\<exists>r w'. ocr_process_frame env tick (Some f) result0 w = Some (0, r, w')
            \<and> result_text r = [] \<and> confidence r = 0
            \<and> failed_inferences (stats_of w') = failed_inferences (stats_of w) + 1
            \<and> total_inferences (stats_of w') = total_inferences (stats_of w) + 1
            \<and> successful_inferences (stats_of w') = successful_inferences (stats_of w))
       \<and> (\<exists>w''. ai_task_frame_cycle env tick t (Some f) result0 w = Some w''
            \<and> failed_inferences (stats_of w'') = failed_inferences (stats_of w) + 1)"
proof
  show "\<exists>r w'. ocr_process_frame env tick (Some f) result0 w = Some (0, r, w')
            \<and> result_text r = [] \<and> confidence r = 0
            \<and> failed_inferences (stats_of w') = failed_inferences (stats_of w) + 1
            \<and> total_inferences (stats_of w') = total_inferences (stats_of w) + 1
            \<and> successful_inferences (stats_of w') = successful_inferences (stats_of w)"
    by (rule process_frame_zero_regions [OF ready sized ok pre nonnull det found none])
next
  let ?w1 = "w\<lparr> ai_context := (ai_context w)\<lparr> current_state := AI_STATE_INFERENCING \<rparr> \<rparr>"
  have ok1: "pool_ok (pool ?w1)" and pre1:
    "ai_memory_alloc (of_nat (OCR_INPUT_WIDTH * OCR_INPUT_HEIGHT * 2)) tick (pool ?w1)
       = (preprocessed_image, p1)"
    using ok pre by simp_all
  from process_frame_zero_regions [OF ready sized ok1 pre1 nonnull det found none, of result0]
  obtain r w2 where run: "ocr_process_frame env tick (Some f) result0 ?w1 = Some (0, r, w2)"
    and f2: "failed_inferences (stats_of w2) = failed_inferences (stats_of ?w1) + 1"
    by blast
  from handle_success_keeps_failed [of env tick r t w2]
  obtain w3 where h: "ai_task_handle_result env tick 0 r t w2 = Some w3"
    and f3: "failed_inferences (stats_of w3) = failed_inferences (stats_of w2)"
    by blast
  have "ai_task_frame_cycle env tick t (Some f) result0 w
          = Some (w3\<lparr> ai_context := (ai_context w3)\<lparr> current_state := AI_STATE_READY \<rparr> \<rparr>)"
    using ready run h by (simp add: ai_task_frame_cycle_def Let_def)
  moreover have "failed_inferences (stats_of (w3\<lparr> ai_context := (ai_context w3)\<lparr> current_state := AI_STATE_READY \<rparr> \<rparr>))
                   = failed_inferences (stats_of w) + 1"
    using f2 f3 by (simp add: stats_of_def)
  ultimately show "\<exists>w''. ai_task_frame_cycle env tick t (Some f) result0 w = Some w''
            \<and> failed_inferences (stats_of w'') = failed_inferences (stats_of w) + 1"
    by blast
qed

theorem zero_regions_witness:
  "(\<exists>r w'. ocr_process_frame (test_env True False) 5 (Some (uniform_frame 0)) cleared_result
              (initial_world 0x90000000) = Some (0, r, w')
      \<and> result_text r = [] \<and> confidence r = 0
      \<and> failed_inferences (stats_of w') = 1
      \<and> total_inferences (stats_of w') = 1
      \<and> successful_inferences (stats_of w') = 0)
   \<and> (\<exists>w''. ai_task_frame_cycle (test_env True False) 5 7000 (Some (uniform_frame 0))
                cleared_result (initial_world 0x90000000) = Some w''
          \<and> failed_inferences (stats_of w'') = 1)"
proof -
  let ?w = "initial_world 0x90000000"
  let ?env = "test_env True False"
  have ready: "frame_ready (uniform_frame 0) \<noteq> 0"
    and sized: "CAMERA_WIDTH * CAMERA_HEIGHT \<le> length (frame_data (uniform_frame 0))"
    by (simp_all add: uniform_frame_def)
  have ok: "pool_ok (pool ?w)"
    by (simp add: pool_ok_def initial_world_def ai_memory_init_def AI_MEMORY_POOL_SIZE_def
        NPU_MAX_MEMORY_BYTES_def)
  obtain q p1 where pre: "ai_memory_alloc (of_nat (OCR_INPUT_WIDTH * OCR_INPUT_HEIGHT * 2)) 5 (pool ?w) = (q, p1)"
    and nonnull: "q \<noteq> 0"
    and p1: "p1 = snd (ai_memory_alloc 153600 5 (ai_memory_init 0x90000000 zero_memory))"
    by (simp add: pool_defs initial_world_def OCR_INPUT_WIDTH_def OCR_INPUT_HEIGHT_def)
  obtain n bs p2 where det: "ocr_detect_text ?env 5 16 p1 = Some (n, bs, p2)"
    and found: "0 \<le> n"
    and p2: "p2 = snd (snd (the (ocr_detect_text ?env 5 16 p1)))"
    and n: "n = 1"
    and bs: "bs = [\<lparr> bbox_x = 80, bbox_y = 60, bbox_width = 160, bbox_height = 60,
                     bbox_confidence = f32_round 0.9, text_direction = 0 \<rparr>]"
    unfolding p1
    by (simp add: pool_defs ocr_detect_text_def test_env_def OCR_INPUT_WIDTH_def
        OCR_INPUT_HEIGHT_def)
  obtain ct tc p3 where none: "ocr_recognize_regions ?env 5 0 (take (nat (min n 16)) bs) ([], 0, 0) p2
                = Some ((ct, tc, 0), p3)"
    unfolding p2 p1 n bs
    by (simp add: pool_defs ocr_detect_text_def test_env_def ocr_recognize_text_def
        ocr_accept_region_def AI_ERROR_NPU_ERROR_def OCR_INPUT_WIDTH_def OCR_INPUT_HEIGHT_def)
  from zero_regions_is_counted_success [OF ready sized ok pre nonnull det found none,
      of cleared_result 7000]
  show ?thesis
    by (simp add: initial_world_def stats_of_def create_ai_task_def ai_stats_reset_def)
qed


subsection \<open>Aggregation\<close>

text \<open>The values of the \<open>float\<close> operations on the confidence 0.92f of the recogniser.\<close>

lemmas f32_defs =
  f32_round_def f32_exponent_def round_half_even_def pow2_def f32_add_def f32_mul_def
  f32_div_def f32_of_nat_def f32_of_u32_def








text \<open>
  The operations round as binary32 does: the mean of seven confidences 0.95f, added one by
  one, is one unit in the last place below 0.95f.
\<close>

lemma seven_fragments_mean:
  "f32_div (foldl f32_add 0 (replicate 7 (f32_round 0.95))) (f32_of_nat 7) = 15938354 / 16777216"
  "f32_round 0.95 = 15938355 / 16777216"
  by (simp_all add: f32_defs Let_def eval_nat_numeral)




subsection \<open>Confidence gating\<close>

lemma low_confidence_counted_twice:
  assumes "confidence r < confidence_threshold (config (ai_context w))"
  shows "\<exists>w'. ai_task_handle_result env tick 0 r t w = Some w'
           \<and> audio_queue w' = audio_queue w
           \<and> low_confidence_count (stats_of w') = low_confidence_count (stats_of w) + 2
           \<and> last_inference_time_us (stats_of w') = t"
  using assms
  by (simp add: ai_task_handle_result_def Let_def with_stats_def stats_of_def
      ai_stats_update_quality_def ai_stats_update_timing_def system_log_error_def)

text \<open>
  C4 (the code breaks it): with the threshold at 0.95, a successfully processed frame whose
  result has confidence 0.80 is not passed to \<open>audio_queue_ocr_result\<close> and its timing is
  recorded in the statistics, but \<open>low_confidence_count\<close> goes up by 2, not by 1:
  \<open>ai_stats_update_quality\<close> counts the result, and the \<open>else\<close> branch of the threshold
  test in \<open>ai_task_entry\<close> counts it again.
\<close>

theorem low_confidence_result_counted_twice:
  "ai_task_handle_result env tick 0 (r\<lparr> confidence := 0.80 \<rparr>) t (with_threshold 0.95 w) \<noteq> None
   \<and> audio_queue (the (ai_task_handle_result env tick 0 (r\<lparr> confidence := 0.80 \<rparr>) t (with_threshold 0.95 w)))
       = audio_queue w
   \<and> low_confidence_count (stats_of (the (ai_task_handle_result env tick 0 (r\<lparr> confidence := 0.80 \<rparr>) t (with_threshold 0.95 w))))
       = low_confidence_count (stats_of w) + 2
   \<and> last_inference_time_us (stats_of (the (ai_task_handle_result env tick 0 (r\<lparr> confidence := 0.80 \<rparr>) t (with_threshold 0.95 w))))
       = t"
proof -
  have "confidence (r\<lparr> confidence := 0.80 \<rparr>) < confidence_threshold (config (ai_context (with_threshold 0.95 w)))"
    by (simp add: with_threshold_def)
  from low_confidence_counted_twice [OF this, of env tick t]
  show ?thesis by (auto simp: with_threshold_def stats_of_def)
qed


subsection \<open>Recovery\<close>

lemma self_test_returns:
  "\<exists>r w'. ai_self_test tick w = Some (r, w') \<and> ai_context w' = ai_context w
            \<and> recovery_attempts w' = recovery_attempts w"
proof -
  obtain q p1 where a: "ai_memory_alloc 1024 tick (pool w) = (q, p1)"
    by (cases "ai_memory_alloc 1024 tick (pool w)") auto
  show ?thesis
  proof (cases "q = 0")
    case True
    with a show ?thesis by (simp add: ai_self_test_def)
  next
    case False
    from alloc_free_pair [OF a False] obtain p2 where "ai_memory_free q p1 = Some (Freed, p2)"
      by blast
    with a False show ?thesis by (simp add: ai_self_test_def)
  qed
qed

lemma recovery_attempt_returns:
  "\<exists>r w'. ai_recovery_attempt env tick w = Some (r, w')
            \<and> recovery_attempts w' = recovery_attempts w + 1"
proof -
  let ?w1 = "w\<lparr> recovery_attempts := recovery_attempts w + 1,
                ai_context := (ai_context w)\<lparr> recovery_needed := 1 \<rparr> \<rparr>"
  obtain r1 c2 where i: "ai_neural_art_init_npu env (ai_context ?w1) = (r1, c2)"
    by (cases "ai_neural_art_init_npu env (ai_context ?w1)") auto
  obtain r2 c3 where l: "ai_load_ocr_models env c2 = (r2, c3)"
    by (cases "ai_load_ocr_models env c2") auto
  let ?c4 = "c3\<lparr> consecutive_errors := 0, error_code := word_of_int AI_ERROR_NONE,
                 recovery_needed := 0 \<rparr>"
  from self_test_returns [of tick "?w1\<lparr> ai_context := ?c4 \<rparr>"]
  obtain r3 w5 where t: "ai_self_test tick (?w1\<lparr> ai_context := ?c4 \<rparr>) = Some (r3, w5)"
    and ra: "recovery_attempts w5 = recovery_attempts w + 1"
    by auto
  show ?thesis
    using i l t ra by (auto simp: ai_recovery_attempt_def Let_def)
qed

lemma handle_error_returns:
  "\<exists>r w'. ai_handle_inference_error env tick code w = Some (r, w')
     \<and> recovery_attempts w'
         = recovery_attempts w + (if consecutive_errors (ai_context w) + 1 > 5 then 1 else 0)
     \<and> (\<not> consecutive_errors (ai_context w) + 1 > 5
          \<longrightarrow> consecutive_errors (ai_context w') = consecutive_errors (ai_context w) + 1)"
proof (cases "consecutive_errors (ai_context w) + 1 > 5")
  case True
  let ?w1 = "system_log_error ERROR_SEVERITY_ERROR TASK_ID_AI_TASK code
               (consecutive_errors (ai_context w) + 1)
               (w\<lparr> ai_context := (ai_context w)\<lparr> error_code := code,
                      consecutive_errors := consecutive_errors (ai_context w) + 1 \<rparr> \<rparr>)"
  from recovery_attempt_returns [of env tick ?w1]
  obtain r w' where "ai_recovery_attempt env tick ?w1 = Some (r, w')"
    "recovery_attempts w' = recovery_attempts ?w1 + 1" by blast
  with True show ?thesis
    by (simp add: ai_handle_inference_error_def Let_def system_log_error_def)
next
  case False
  then show ?thesis
    by (simp add: ai_handle_inference_error_def Let_def system_log_error_def)
qed

lemma report_errors_below_threshold:
  "unat (consecutive_errors (ai_context w)) + length es \<le> 5 \<Longrightarrow>
   \<exists>w'. report_errors es w = Some w' \<and> recovery_attempts w' = recovery_attempts w
        \<and> unat (consecutive_errors (ai_context w'))
            = unat (consecutive_errors (ai_context w)) + length es"
proof (induction es arbitrary: w)
  case Nil
  then show ?case by simp
next
  case (Cons e es)
  obtain env tick code where e: "e = (env, tick, code)" by (cases e) auto
  let ?c = "consecutive_errors (ai_context w)"
  from Cons.prems have small: "unat ?c \<le> 4" by simp
  then have inc: "unat (?c + 1) = unat ?c + 1"
    by (simp add: unat_word_ariths)
  with small have nt: "\<not> ?c + 1 > 5"
    by (simp add: word_less_nat_alt)
  from handle_error_returns [of env tick code w] nt
  obtain r w1 where h: "ai_handle_inference_error env tick code w = Some (r, w1)"
    and ra: "recovery_attempts w1 = recovery_attempts w"
    and ce: "consecutive_errors (ai_context w1) = ?c + 1"
    by auto
  from Cons.prems inc ce have "unat (consecutive_errors (ai_context w1)) + length es \<le> 5"
    by simp
  from Cons.IH [OF this] obtain w' where "report_errors es w1 = Some w'"
    "recovery_attempts w' = recovery_attempts w1"
    "unat (consecutive_errors (ai_context w')) = unat (consecutive_errors (ai_context w1)) + length es"
    by blast
  with h ra ce inc show ?case by (simp add: e)
qed


lemma run_results_append:
  "run_results (xs @ ys) w
     = (case run_results xs w of None \<Rightarrow> None | Some w' \<Rightarrow> run_results ys w')"
proof (induction xs arbitrary: w)
  case Nil
  show ?case by simp
next
  case (Cons e es)
  obtain env tick pr r t where e: "e = (env, tick, pr, r, t)" by (cases e) auto
  show ?case
    by (simp add: e Cons.IH split: option.splits)
qed

lemma handle_success_keeps_errors:
  "\<exists>w'. ai_task_handle_result env tick 0 r t w = Some w'
         \<and> consecutive_errors (ai_context w') = consecutive_errors (ai_context w)
         \<and> recovery_attempts w' = recovery_attempts w"
  by (simp add: ai_task_handle_result_def Let_def with_stats_def stats_of_def
      ai_stats_update_quality_def ai_stats_update_timing_def system_log_error_def)

lemma handle_failure_step:
  assumes "processing_result \<noteq> 0"
  shows "\<exists>w'. ai_task_handle_result env tick processing_result r t w = Some w'
     \<and> recovery_attempts w'
         = recovery_attempts w + (if consecutive_errors (ai_context w) + 1 > 5 then 1 else 0)
     \<and> (\<not> consecutive_errors (ai_context w) + 1 > 5
          \<longrightarrow> consecutive_errors (ai_context w') = consecutive_errors (ai_context w) + 1)"
proof -
  from handle_error_returns [of env tick "word_of_int processing_result" w]
  obtain rc w1 where h: "ai_handle_inference_error env tick (word_of_int processing_result) w
                          = Some (rc, w1)"
    and ra: "recovery_attempts w1
         = recovery_attempts w + (if consecutive_errors (ai_context w) + 1 > 5 then 1 else 0)"
    and ce: "\<not> consecutive_errors (ai_context w) + 1 > 5
          \<longrightarrow> consecutive_errors (ai_context w1) = consecutive_errors (ai_context w) + 1"
    by blast
  show ?thesis
    using assms h ra ce by (simp add: ai_task_handle_result_def with_stats_def)
qed

lemma failed_iterations_below_threshold:
  assumes "processing_result \<noteq> 0"
  shows "unat (consecutive_errors (ai_context w)) + n \<le> 5 \<Longrightarrow>
   \<exists>w'. run_results (replicate n (env, tick, processing_result, r, t)) w = Some w'
        \<and> recovery_attempts w' = recovery_attempts w
        \<and> unat (consecutive_errors (ai_context w'))
            = unat (consecutive_errors (ai_context w)) + n"
proof (induction n arbitrary: w)
  case 0
  then show ?case by simp
next
  case (Suc n)
  let ?c = "consecutive_errors (ai_context w)"
  from Suc.prems have small: "unat ?c \<le> 4" by simp
  then have inc: "unat (?c + 1) = unat ?c + 1"
    by (simp add: unat_word_ariths)
  with small have nt: "\<not> ?c + 1 > 5"
    by (simp add: word_less_nat_alt)
  from handle_failure_step [OF assms, of env tick r t w] nt
  obtain w1 where h: "ai_task_handle_result env tick processing_result r t w = Some w1"
    and ra: "recovery_attempts w1 = recovery_attempts w"
    and ce: "consecutive_errors (ai_context w1) = ?c + 1"
    by auto
  from Suc.prems inc ce have "unat (consecutive_errors (ai_context w1)) + n \<le> 5"
    by simp
  from Suc.IH [OF this] obtain w' where
    "run_results (replicate n (env, tick, processing_result, r, t)) w1 = Some w'"
    "recovery_attempts w' = recovery_attempts w1"
    "unat (consecutive_errors (ai_context w')) = unat (consecutive_errors (ai_context w1)) + n"
    by blast
  with h ra ce inc show ?case by simp
qed

text \<open>
  C8 (the code breaks it): the branch of \<open>ai_task_entry\<close> for a successfully processed
  frame never writes \<open>consecutive_errors\<close>, whatever the result, the time and the state;
  only a recovery that gets past the model reload sets it to 0. So from the initial
  state, after five failed iterations and then a successful one, no recovery attempt has
  been made and the count still stands at 5; the next failed iteration, a single fault
  after a success, makes a recovery attempt.
\<close>

theorem single_fault_after_success_triggers_recovery:
  "(\<exists>w'. ai_task_handle_result env tick 0 r t w = Some w'
         \<and> consecutive_errors (ai_context w') = consecutive_errors (ai_context w))
   \<and> run_results (replicate 5 failed_iteration @ [successful_iteration])
        (initial_world 0x90000000) \<noteq> None
   \<and> recovery_attempts
        (the (run_results (replicate 5 failed_iteration @ [successful_iteration])
                (initial_world 0x90000000))) = 0
   \<and> consecutive_errors
        (ai_context (the (run_results (replicate 5 failed_iteration @ [successful_iteration])
                            (initial_world 0x90000000)))) = 5
   \<and> run_results (replicate 5 failed_iteration @ [successful_iteration, failed_iteration])
        (initial_world 0x90000000) \<noteq> None
   \<and> recovery_attempts
        (the (run_results
                (replicate 5 failed_iteration @ [successful_iteration, failed_iteration])
                (initial_world 0x90000000))) = 1"
proof -
  let ?W = "initial_world 0x90000000"
  have code: "AI_ERROR_NPU_ERROR \<noteq> 0"
    by (simp add: AI_ERROR_NPU_ERROR_def)
  have start: "unat (consecutive_errors (ai_context ?W)) + 5 \<le> 5"
    and ra0: "recovery_attempts ?W = 0"
    and ce0: "consecutive_errors (ai_context ?W) = 0"
    by (simp_all add: initial_world_def create_ai_task_def)
  from failed_iterations_below_threshold [OF code start, of "test_env False True" 0 cleared_result 7000]
  obtain w5 where r5: "run_results (replicate 5 failed_iteration) ?W = Some w5"
    and ra5: "recovery_attempts w5 = 0"
    and ce5n: "unat (consecutive_errors (ai_context w5)) = 5"
    by (auto simp: failed_iteration_def ra0 ce0)
  from ce5n have ce5: "consecutive_errors (ai_context w5) = 5"
    by (simp add: word_unat_eq_iff)
  from handle_success_keeps_errors [of "test_env True True" 0 sample_result 7000 w5]
  obtain w6 where s6: "ai_task_handle_result (test_env True True) 0 0 sample_result 7000 w5 = Some w6"
    and ce6: "consecutive_errors (ai_context w6) = 5"
    and ra6: "recovery_attempts w6 = 0"
    by (auto simp: ce5 ra5)
  from handle_failure_step [OF code, of "test_env False True" 0 cleared_result 7000 w6]
  obtain w7 where f7: "ai_task_handle_result (test_env False True) 0 AI_ERROR_NPU_ERROR
                         cleared_result 7000 w6 = Some w7"
    and ra7: "recovery_attempts w7 = 1"
    by (auto simp: ce6 ra6)
  have "run_results [successful_iteration] w5 = Some w6"
    using s6 by (simp add: successful_iteration_def)
  then have run6: "run_results (replicate 5 failed_iteration @ [successful_iteration]) ?W = Some w6"
    by (simp add: run_results_append r5)
  have "run_results [successful_iteration, failed_iteration] w5 = Some w7"
    using s6 f7 by (simp add: successful_iteration_def failed_iteration_def)
  then have run7: "run_results (replicate 5 failed_iteration @ [successful_iteration, failed_iteration]) ?W
                = Some w7"
    by (simp add: run_results_append r5)
  have keep: "\<exists>w'. ai_task_handle_result env tick 0 r t w = Some w'
         \<and> consecutive_errors (ai_context w') = consecutive_errors (ai_context w)"
    using handle_success_keeps_errors [of env tick r t w] by blast
  show ?thesis
    using keep by (simp add: run6 run7 ce6 ra6 ra7)
qed

end
